theory Spec2Isabelle
  imports Main "HOL-Library.AList"
begin

section \<open>Constants and data of package unidling\<close>

text \<open>
  \<^verbatim>\<open>type Status string\<close>: a status is any string; the three constants below are the
  values the controller itself writes.
\<close>

type_synonym Status = string

definition StatusAnnotation :: string where
  "StatusAnnotation = ''k8s.ovn.org/idle-status''"

definition StatusIdle :: Status where
  "StatusIdle = ''Idle''"

definition StatusGracePeriod :: Status where
  "StatusGracePeriod = ''GracePeriod''"

definition StatusNotIdle :: Status where
  "StatusNotIdle = ''NotIdle''"

text \<open>\<^verbatim>\<open>GracePeriodDuration = 30 * time.Second\<close>, counted in seconds.\<close>

definition GracePeriodDuration :: nat where
  "GracePeriodDuration = 30"

definition OvnServiceIdledSuffix :: string where
  "OvnServiceIdledSuffix = ''idled-at''"

text \<open>\<^verbatim>\<open>kapi.Protocol\<close> is a string type with the constants TCP, UDP and SCTP.\<close>

type_synonym Protocol = string

definition ProtocolTCP :: Protocol where
  "ProtocolTCP = ''TCP''"

definition ProtocolUDP :: Protocol where
  "ProtocolUDP = ''UDP''"

definition ProtocolSCTP :: Protocol where
  "ProtocolSCTP = ''SCTP''"

text \<open>
  A Go \<^verbatim>\<open>map[string]string\<close> is an association list read with \<^const>\<open>map_of\<close>;
  a nil map is \<^const>\<open>None\<close> where the source tells nil from empty.
\<close>

type_synonym strmap = "(string \<times> string) list"

datatype ServiceVIPKey = ServiceVIPKey (vip: string) (protocol: Protocol)

datatype NamespacedName = NamespacedName (nnNamespace: string) (nnName: string)

record ServicePort =
  Port :: int
  PortProtocol :: Protocol

record Service =
  Namespace :: string
  Name :: string
  Annotations :: "strmap option"
  SpecType :: string
  ClusterIP :: string
  ClusterIPs :: "string list"
  Ports :: "ServicePort list"

datatype error =
    ErrDeleteOp
  | ErrTransact
  | ErrOperationResult
  | ErrPatchRejected
  | ErrServiceNotFound
  | ErrCantSetStatus Status error
  | ErrKeyFormat string
  | ErrNoKey

section \<open>The southbound database client\<close>

text \<open>
  \<^verbatim>\<open>sbdb.ControllerEvent\<close>: a row of the Controller_Event table. The client is an
  external collaborator; the handler uses three of its calls, each of which can fail:
  building the delete operation, running the transaction, and checking the results.
  The three outcomes are fields of the client, so that every error return of the handler
  is a branch of the model. A successful transaction removes the rows with the event's
  UUID.
\<close>

record ControllerEvent =
  UUID :: string
  EventType :: string
  EventInfo :: strmap

definition ControllerEventEventTypeEmptyLbBackends :: string where
  "ControllerEventEventTypeEmptyLbBackends = ''empty_lb_backends''"

datatype Operation = OpDelete string

record sbClient =
  rows :: "ControllerEvent list"
  deleteOpFails :: bool
  transactFails :: bool
  operationFails :: bool

definition WhereDelete :: "sbClient \<Rightarrow> ControllerEvent \<Rightarrow> error + Operation list" where
  "WhereDelete sb event =
     (if deleteOpFails sb then Inl ErrDeleteOp else Inr [OpDelete (UUID event)])"

fun applyOperation :: "ControllerEvent list \<Rightarrow> Operation \<Rightarrow> ControllerEvent list" where
  "applyOperation rs (OpDelete u) = filter (\<lambda>r. UUID r \<noteq> u) rs"

text \<open>
  \<^verbatim>\<open>Transact\<close> returns one result per operation (here: whether the server reports an
  error for it) or a transport error. A transaction with a failed operation changes
  nothing.
\<close>

definition Transact :: "sbClient \<Rightarrow> Operation list \<Rightarrow> (error + bool list) \<times> sbClient" where
  "Transact sb ops =
     (if transactFails sb then (Inl ErrTransact, sb)
      else if operationFails sb then (Inr (map (\<lambda>_. False) ops), sb)
      else (Inr (map (\<lambda>_. True) ops), sb\<lparr>rows := foldl applyOperation (rows sb) ops\<rparr>))"

definition CheckOperationResults :: "bool list \<Rightarrow> Operation list \<Rightarrow> error option" where
  "CheckOperationResults result ops =
     (if list_all id result then None else Some ErrOperationResult)"

section \<open>The unidling controller\<close>

text \<open>What \<^verbatim>\<open>eventRecorder.Eventf\<close> was called with.\<close>

record RecordedEvent =
  refKind :: string
  refNamespace :: string
  refName :: string
  eventtype :: string
  reason :: string
  message :: string

text \<open>
  The delay queue of \<^verbatim>\<open>workqueue.NewDelayingQueue\<close>, an external collaborator: the keys
  added, each with its delay, in the order they become available (all delays of one
  controller are equal). \<^verbatim>\<open>Get\<close> hands out the first key, reports the shutdown of an
  empty queue, and otherwise blocks.
\<close>

record delayQueue =
  waiting :: "(string \<times> nat) list"
  shuttingDown :: bool

definition AddAfter :: "delayQueue \<Rightarrow> string \<Rightarrow> nat \<Rightarrow> delayQueue" where
  "AddAfter q key d = q\<lparr>waiting := waiting q @ [(key, d)]\<rparr>"

datatype getResult = Item string delayQueue | ShutDown | Blocked

definition Get :: "delayQueue \<Rightarrow> getResult" where
  "Get q =
     (case waiting q of
        (key, d) # rest \<Rightarrow> Item key (q\<lparr>waiting := rest\<rparr>)
      | [] \<Rightarrow> (if shuttingDown q then ShutDown else Blocked))"

text \<open>
  The fields of \<^verbatim>\<open>unidlingController\<close>. The event recorder is the list of events
  recorded so far. The channel \<^verbatim>\<open>eventQueue\<close> and the mutex only order the calls of the
  handlers, which are modelled one call at a time.
\<close>

record unidlingController =
  eventRecorder :: "RecordedEvent list"
  serviceVIPToName :: "ServiceVIPKey \<rightharpoonup> NamespacedName"
  sbClient :: sbClient
  ucGracePeriodQueue :: delayQueue

definition AddServiceVIPToName ::
    "unidlingController \<Rightarrow> string \<Rightarrow> Protocol \<Rightarrow> string \<Rightarrow> string \<Rightarrow> unidlingController" where
  "AddServiceVIPToName uc v p namespace name =
     uc\<lparr>serviceVIPToName := (serviceVIPToName uc)(ServiceVIPKey v p \<mapsto> NamespacedName namespace name)\<rparr>"

definition GetServiceVIPToName ::
    "unidlingController \<Rightarrow> string \<Rightarrow> Protocol \<Rightarrow> NamespacedName option" where
  "GetServiceVIPToName uc v p = serviceVIPToName uc (ServiceVIPKey v p)"

definition DeleteServiceVIPToName ::
    "unidlingController \<Rightarrow> string \<Rightarrow> Protocol \<Rightarrow> unidlingController" where
  "DeleteServiceVIPToName uc v p =
     uc\<lparr>serviceVIPToName := (serviceVIPToName uc)(ServiceVIPKey v p := None)\<rparr>"

subsection \<open>handleLbEmptyBackendsEvent\<close>

text \<open>Reading a Go map at a missing key gives the empty string.\<close>

definition mapIndex :: "strmap \<Rightarrow> string \<Rightarrow> string" where
  "mapIndex m k = (case map_of m k of None \<Rightarrow> [] | Some v \<Rightarrow> v)"

text \<open>Lines 281 to 289 of the handler: the protocol of the event.\<close>

definition eventProtocol :: "strmap \<Rightarrow> Protocol" where
  "eventProtocol info =
     (let proto = mapIndex info ''protocol'' in
      if proto = ''udp'' then ProtocolUDP
      else if proto = ''sctp'' then ProtocolSCTP
      else ProtocolTCP)"

definition needPodsEvent :: "NamespacedName \<Rightarrow> RecordedEvent" where
  "needPodsEvent serviceName =
     \<lparr>refKind = ''Service'', refNamespace = nnNamespace serviceName,
      refName = nnName serviceName, eventtype = ''Normal'', reason = ''NeedPods'',
      message = ''The service '' @ nnName serviceName @ '' needs pods''\<rparr>"

text \<open>
  The handler returns its error (\<^const>\<open>None\<close> is nil) and the controller after the
  call. When the payload has no \<^verbatim>\<open>vip\<close> the source returns \<^verbatim>\<open>err\<close>, the variable that
  holds the outcome of \<^verbatim>\<open>CheckOperationResults\<close>.
\<close>

definition handleLbEmptyBackendsEvent ::
    "unidlingController \<Rightarrow> ControllerEvent \<Rightarrow> error option \<times> unidlingController" where
  "handleLbEmptyBackendsEvent uc event =
     (case WhereDelete (sbClient uc) event of
        Inl e \<Rightarrow> (Some e, uc)
      | Inr ops \<Rightarrow>
          (case Transact (sbClient uc) ops of
             (Inl e, sb) \<Rightarrow> (Some e, uc\<lparr>sbClient := sb\<rparr>)
           | (Inr result, sb) \<Rightarrow>
               (let uc1 = uc\<lparr>sbClient := sb\<rparr>;
                    err = CheckOperationResults result ops
                in if err \<noteq> None then (err, uc1)
                   else
                     (case map_of (EventInfo event) ''vip'' of
                        None \<Rightarrow> (err, uc1)
                      | Some v \<Rightarrow>
                          (let protocol = eventProtocol (EventInfo event) in
                           case GetServiceVIPToName uc1 v protocol of
                             Some serviceName \<Rightarrow>
                               (None, uc1\<lparr>eventRecorder :=
                                  eventRecorder uc1 @ [needPodsEvent serviceName]\<rparr>)
                           | None \<Rightarrow> (None, uc1))))))"

subsection \<open>The registry under service notifications\<close>

text \<open>
  The helpers of package \<^verbatim>\<open>util\<close> that the service handlers call are not part of this
  file; they are taken as parameters.
\<close>

record util =
  ServiceTypeHasClusterIP :: "Service \<Rightarrow> bool"
  IsClusterIPSet :: "Service \<Rightarrow> bool"
  GetClusterIPs :: "Service \<Rightarrow> string list"
  JoinHostPortInt32 :: "string \<Rightarrow> int \<Rightarrow> string"

text \<open>\<^verbatim>\<open>strings.HasSuffix\<close>.\<close>

definition HasSuffix :: "string \<Rightarrow> string \<Rightarrow> bool" where
  "HasSuffix s suf \<longleftrightarrow> length suf \<le> length s \<and> drop (length s - length suf) s = suf"

text \<open>
  \<^verbatim>\<open>cache.MetaNamespaceKeyFunc\<close> of client-go on a Service: the key is
  \<^verbatim>\<open>namespace/name\<close>, or the name alone when the namespace is empty. It fails only on
  objects without metadata, which a Service is not.
\<close>

definition MetaNamespaceKeyFunc :: "Service \<Rightarrow> error + string" where
  "MetaNamespaceKeyFunc svc =
     (if Namespace svc = [] then Inr (Name svc)
      else Inr (Namespace svc @ ''/'' @ Name svc))"

text \<open>
  An assignment \<^verbatim>\<open>svc.Annotations[k] = v\<close>. The source makes it only after it has read
  a key of the same map, so the map is not nil there.
\<close>

definition setAnnotation :: "Service \<Rightarrow> string \<Rightarrow> string \<Rightarrow> Service" where
  "setAnnotation svc k v =
     svc\<lparr>Annotations :=
       Some (AList.update k v (case Annotations svc of None \<Rightarrow> [] | Some m \<Rightarrow> m))\<rparr>"

definition svcAnnotation :: "Service \<Rightarrow> string \<Rightarrow> string option" where
  "svcAnnotation svc k = (case Annotations svc of None \<Rightarrow> None | Some m \<Rightarrow> map_of m k)"

text \<open>
  \<^verbatim>\<open>alignIdleStatusAnnotation\<close> changes the annotations of the object it is given and
  may schedule a key; it returns its error, the object and the controller.
\<close>

definition alignIdleStatusAnnotation ::
    "unidlingController \<Rightarrow> Service \<Rightarrow> error option \<times> Service \<times> unidlingController" where
  "alignIdleStatusAnnotation uc svc =
     (let hasIdledAtAnnotation =
            (case Annotations svc of
               None \<Rightarrow> False
             | Some m \<Rightarrow> list_ex (\<lambda>annotationKey. HasSuffix annotationKey OvnServiceIdledSuffix) (map fst m));
          statusAnnotationPresent = (svcAnnotation svc StatusAnnotation \<noteq> None);
          statusAnnotation = (case svcAnnotation svc StatusAnnotation of None \<Rightarrow> [] | Some s \<Rightarrow> s)
      in if \<not> statusAnnotationPresent \<and> \<not> hasIdledAtAnnotation then (None, svc, uc)
         else if \<not> statusAnnotationPresent \<and> hasIdledAtAnnotation
           then (None, setAnnotation svc StatusAnnotation StatusIdle, uc)
         else if statusAnnotation = StatusIdle then
           (if hasIdledAtAnnotation then (None, svc, uc)
            else
              (let svc1 = setAnnotation svc StatusAnnotation StatusGracePeriod in
               case MetaNamespaceKeyFunc svc1 of
                 Inl e \<Rightarrow> (Some ErrNoKey, svc1, uc)
               | Inr key \<Rightarrow>
                   (None, svc1,
                    uc\<lparr>ucGracePeriodQueue :=
                      AddAfter (ucGracePeriodQueue uc) key GracePeriodDuration\<rparr>)))
         else if statusAnnotation = StatusNotIdle then
           (if \<not> hasIdledAtAnnotation then (None, svc, uc)
            else (None, setAnnotation svc StatusAnnotation StatusIdle, uc))
         else if statusAnnotation = StatusGracePeriod then
           (if \<not> hasIdledAtAnnotation then (None, svc, uc)
            else (None, setAnnotation svc StatusAnnotation StatusIdle, uc))
         else (None, svc, uc))"

text \<open>The two nested loops of \<^verbatim>\<open>onServiceAdd\<close> and \<^verbatim>\<open>onServiceDelete\<close>.\<close>

definition addServiceVIPs :: "util \<Rightarrow> unidlingController \<Rightarrow> Service \<Rightarrow> unidlingController" where
  "addServiceVIPs u uc svc =
     foldl (\<lambda>uc1 ip.
        foldl (\<lambda>uc2 svcPort.
           AddServiceVIPToName uc2 (JoinHostPortInt32 u ip (Port svcPort))
             (PortProtocol svcPort) (Namespace svc) (Name svc))
          uc1 (Ports svc))
       uc (GetClusterIPs u svc)"

definition deleteServiceVIPs :: "util \<Rightarrow> unidlingController \<Rightarrow> Service \<Rightarrow> unidlingController" where
  "deleteServiceVIPs u uc svc =
     foldl (\<lambda>uc1 ip.
        foldl (\<lambda>uc2 svcPort.
           DeleteServiceVIPToName uc2 (JoinHostPortInt32 u ip (Port svcPort))
             (PortProtocol svcPort))
          uc1 (Ports svc))
       uc (GetClusterIPs u svc)"

text \<open>
  \<^verbatim>\<open>onServiceAdd\<close> of the unidling controller. It drops the error of
  \<^verbatim>\<open>alignIdleStatusAnnotation\<close>; the object it was given comes back with the
  annotations that call left on it.
\<close>

definition uc_onServiceAdd ::
    "util \<Rightarrow> unidlingController \<Rightarrow> Service \<Rightarrow> unidlingController \<times> Service" where
  "uc_onServiceAdd u uc svc =
     (let uc1 = (if ServiceTypeHasClusterIP u svc \<and> IsClusterIPSet u svc
                 then addServiceVIPs u uc svc else uc)
      in case alignIdleStatusAnnotation uc1 svc of (err, svc1, uc2) \<Rightarrow> (uc2, svc1))"

text \<open>
  What the informer hands to a delete handler: the Service, a tombstone
  (\<^verbatim>\<open>cache.DeletedFinalStateUnknown\<close>) around some object, or an object of another type.
  For the last two the handler reports through \<^verbatim>\<open>utilruntime.HandleError\<close>, which only
  logs, and returns.
\<close>

datatype watchObj = SvcObj Service | Tombstone watchObj | OtherObj

fun uc_onServiceDelete :: "util \<Rightarrow> unidlingController \<Rightarrow> watchObj \<Rightarrow> unidlingController" where
  "uc_onServiceDelete u uc (SvcObj svc) =
     (if ServiceTypeHasClusterIP u svc \<and> IsClusterIPSet u svc
      then deleteServiceVIPs u uc svc else uc)"
| "uc_onServiceDelete u uc (Tombstone (SvcObj svc)) =
     (if ServiceTypeHasClusterIP u svc \<and> IsClusterIPSet u svc
      then deleteServiceVIPs u uc svc else uc)"
| "uc_onServiceDelete u uc (Tombstone obj) = uc"
| "uc_onServiceDelete u uc OtherObj = uc"

text \<open>The \<^verbatim>\<open>UpdateFunc\<close> that \<^verbatim>\<open>NewController\<close> registers.\<close>

definition uc_onServiceUpdate ::
    "util \<Rightarrow> unidlingController \<Rightarrow> Service \<Rightarrow> Service \<Rightarrow> unidlingController \<times> Service" where
  "uc_onServiceUpdate u uc old new = uc_onServiceAdd u (uc_onServiceDelete u uc (SvcObj old)) new"

section \<open>The idle status controller\<close>

text \<open>
  Modelled from the spec: \<^verbatim>\<open>kube.Interface\<close> and its \<^verbatim>\<open>SetAnnotationsOnService\<close> are
  code of this repository outside this file. The spec gives the contract
  \<^verbatim>\<open>SetAnnotations(namespace, name, mapping) -> error\<close>: the pairs are set on the stored
  workload, or the call fails and the failure is reported upward. The client holds the
  stored objects, every call made so far, and which calls (by their number) the API
  server rejects. The service lister reads the same stored objects.
\<close>

record kubeInterface =
  objects :: "NamespacedName \<rightharpoonup> Service"
  setCalls :: "(string \<times> string \<times> strmap) list"
  rejects :: "nat \<Rightarrow> bool"

definition SetAnnotationsOnService ::
    "kubeInterface \<Rightarrow> string \<Rightarrow> string \<Rightarrow> strmap \<Rightarrow> error option \<times> kubeInterface" where
  "SetAnnotationsOnService k namespace name annotations =
     (let k1 = k\<lparr>setCalls := setCalls k @ [(namespace, name, annotations)]\<rparr> in
      if rejects k (length (setCalls k)) then (Some ErrPatchRejected, k1)
      else
        (case objects k (NamespacedName namespace name) of
           None \<Rightarrow> (Some ErrServiceNotFound, k1)
         | Some svc \<Rightarrow>
             (None, k1\<lparr>objects := (objects k)(NamespacedName namespace name \<mapsto>
                foldl (\<lambda>s (a, v). setAnnotation s a v) svc annotations)\<rparr>)))"

record idleStatusController =
  kube :: kubeInterface
  gracePeriodQueue :: delayQueue
  gracePeriod :: nat
  handledErrors :: "error list"

text \<open>\<^verbatim>\<open>utilruntime.HandleError\<close>: the error goes to the error sink.\<close>

definition HandleError :: "idleStatusController \<Rightarrow> error \<Rightarrow> idleStatusController" where
  "HandleError isc e = isc\<lparr>handledErrors := handledErrors isc @ [e]\<rparr>"

definition hasIdleAt :: "Service option \<Rightarrow> bool" where
  "hasIdleAt svc =
     (case svc of
        None \<Rightarrow> False
      | Some s \<Rightarrow>
          (case Annotations s of
             None \<Rightarrow> False
           | Some m \<Rightarrow>
               list_ex (\<lambda>annotationKey. HasSuffix annotationKey OvnServiceIdledSuffix) (map fst m)))"

definition GetIdleStatus :: "Service \<Rightarrow> Status" where
  "GetIdleStatus svc =
     (case Annotations svc of
        None \<Rightarrow> StatusNotIdle
      | Some m \<Rightarrow>
          (case map_of m StatusAnnotation of
             None \<Rightarrow> StatusNotIdle
           | Some status \<Rightarrow> status))"

definition markServiceAsGracePeriod ::
    "idleStatusController \<Rightarrow> Service \<Rightarrow> error option \<times> idleStatusController" where
  "markServiceAsGracePeriod isc svc =
     (case SetAnnotationsOnService (kube isc) (Namespace svc) (Name svc)
             [(StatusAnnotation, StatusGracePeriod)] of
        (Some e, k) \<Rightarrow> (Some (ErrCantSetStatus StatusGracePeriod e), isc\<lparr>kube := k\<rparr>)
      | (None, k) \<Rightarrow>
          (case MetaNamespaceKeyFunc svc of
             Inl e \<Rightarrow> (Some ErrNoKey, isc\<lparr>kube := k\<rparr>)
           | Inr key \<Rightarrow>
               (None, isc\<lparr>kube := k,
                  gracePeriodQueue := AddAfter (gracePeriodQueue isc) key (gracePeriod isc)\<rparr>)))"

definition markServiceAsIdleIfNeeded ::
    "idleStatusController \<Rightarrow> Service \<Rightarrow> error option \<times> idleStatusController" where
  "markServiceAsIdleIfNeeded isc svc =
     (if (case Annotations svc of
            None \<Rightarrow> False
          | Some m \<Rightarrow> map_of m StatusAnnotation = Some StatusIdle)
      then (None, isc)
      else
        (case SetAnnotationsOnService (kube isc) (Namespace svc) (Name svc)
                [(StatusAnnotation, StatusIdle)] of
           (Some e, k) \<Rightarrow> (Some (ErrCantSetStatus StatusIdle e), isc\<lparr>kube := k\<rparr>)
         | (None, k) \<Rightarrow> (None, isc\<lparr>kube := k\<rparr>)))"

definition markServiceAsNotIdle ::
    "idleStatusController \<Rightarrow> Service \<Rightarrow> error option \<times> idleStatusController" where
  "markServiceAsNotIdle isc svc =
     (case Annotations svc of
        None \<Rightarrow> (None, isc)
      | Some m \<Rightarrow>
          (case map_of m StatusAnnotation of
             None \<Rightarrow> (None, isc)
           | Some status \<Rightarrow>
               if status = StatusNotIdle then (None, isc)
               else if status = StatusIdle then (None, isc)
               else
                 (case SetAnnotationsOnService (kube isc) (Namespace svc) (Name svc)
                         [(StatusAnnotation, StatusNotIdle)] of
                    (Some e, k) \<Rightarrow> (Some (ErrCantSetStatus StatusNotIdle e), isc\<lparr>kube := k\<rparr>)
                  | (None, k) \<Rightarrow> (None, isc\<lparr>kube := k\<rparr>))))"

text \<open>
  \<^verbatim>\<open>cache.SplitMetaNamespaceKey\<close> of client-go: the key is cut at every slash; one
  part is a name without namespace, two parts are namespace and name, more is an error.
\<close>

fun splitSlash :: "string \<Rightarrow> string list" where
  "splitSlash [] = [[]]"
| "splitSlash (c # cs) =
     (if c = CHR ''/'' then [] # splitSlash cs
      else (case splitSlash cs of
              [] \<Rightarrow> [[c]]
            | p # ps \<Rightarrow> (c # p) # ps))"

definition SplitMetaNamespaceKey :: "string \<Rightarrow> error + (string \<times> string)" where
  "SplitMetaNamespaceKey key =
     (case splitSlash key of
        [name] \<Rightarrow> Inr ([], name)
      | [namespace, name] \<Rightarrow> Inr (namespace, name)
      | _ \<Rightarrow> Inl (ErrKeyFormat key))"

text \<open>The function literal that \<^verbatim>\<open>processNextWorkItem\<close> applies to the key.\<close>

definition syncKey :: "idleStatusController \<Rightarrow> string \<Rightarrow> error option \<times> idleStatusController" where
  "syncKey isc key =
     (case SplitMetaNamespaceKey key of
        Inl e \<Rightarrow> (Some e, isc)
      | Inr (namespace, name) \<Rightarrow>
          (case objects (kube isc) (NamespacedName namespace name) of
             None \<Rightarrow> (None, isc)
           | Some service \<Rightarrow> markServiceAsNotIdle isc service))"

text \<open>
  \<^verbatim>\<open>processNextWorkItem\<close> takes the next key of the queue. \<^const>\<open>None\<close> is the call
  that waits on an empty queue; otherwise the result is whether the worker goes on, and
  the controller after the call.
\<close>

definition processNextWorkItem ::
    "idleStatusController \<Rightarrow> (bool \<times> idleStatusController) option" where
  "processNextWorkItem isc =
     (case Get (gracePeriodQueue isc) of
        Blocked \<Rightarrow> None
      | ShutDown \<Rightarrow> Some (False, isc)
      | Item key q \<Rightarrow>
          (case syncKey (isc\<lparr>gracePeriodQueue := q\<rparr>) key of
             (Some e, isc1) \<Rightarrow> Some (True, HandleError isc1 e)
           | (None, isc1) \<Rightarrow> Some (True, isc1)))"

definition isc_onServiceAdd :: "idleStatusController \<Rightarrow> Service \<Rightarrow> idleStatusController" where
  "isc_onServiceAdd isc svc =
     (let isIdled = hasIdleAt (Some svc) in
      if \<not> isIdled then isc
      else
        (case markServiceAsIdleIfNeeded isc svc of
           (Some e, isc1) \<Rightarrow> HandleError isc1 e
         | (None, isc1) \<Rightarrow> isc1))"

definition isc_onServiceUpdate ::
    "idleStatusController \<Rightarrow> Service \<Rightarrow> Service \<Rightarrow> idleStatusController" where
  "isc_onServiceUpdate isc oldSvc newSvc =
     (let oldSvcIdleAt = hasIdleAt (Some oldSvc);
          newSvcIdleAt = hasIdleAt (Some newSvc)
      in if oldSvcIdleAt \<and> \<not> newSvcIdleAt then
           (case markServiceAsGracePeriod isc newSvc of
              (Some e, isc1) \<Rightarrow> HandleError isc1 e
            | (None, isc1) \<Rightarrow> isc1)
         else if newSvcIdleAt then
           (case markServiceAsIdleIfNeeded isc newSvc of
              (Some e, isc1) \<Rightarrow> HandleError isc1 e
            | (None, isc1) \<Rightarrow> isc1)
         else isc)"

section \<open>Notions the properties are stated with\<close>

text \<open>The identity of a workload, and the key its grace timer is scheduled under.\<close>

definition svcId :: "Service \<Rightarrow> NamespacedName" where
  "svcId svc = NamespacedName (Namespace svc) (Name svc)"

definition serviceKey :: "Service \<Rightarrow> string" where
  "serviceKey svc = (case MetaNamespaceKeyFunc svc of Inl e \<Rightarrow> [] | Inr key \<Rightarrow> key)"

text \<open>
  The acknowledgement of an event goes through when none of the three calls to the
  database client fails; the controller after an acknowledgement that went through.
\<close>

definition ackSucceeds :: "sbClient \<Rightarrow> bool" where
  "ackSucceeds sb \<longleftrightarrow> \<not> deleteOpFails sb \<and> \<not> transactFails sb \<and> \<not> operationFails sb"

definition acknowledged :: "unidlingController \<Rightarrow> ControllerEvent \<Rightarrow> unidlingController" where
  "acknowledged uc event =
     uc\<lparr>sbClient := (sbClient uc)\<lparr>rows := filter (\<lambda>r. UUID r \<noteq> UUID event) (rows (sbClient uc))\<rparr>\<rparr>"

text \<open>
  The protocol of an event as the specification words it: \<^verbatim>\<open>udp\<close> and \<^verbatim>\<open>sctp\<close> are
  compared without regard to case, anything else and an absent field is TCP.
\<close>

definition asciiLower :: "char \<Rightarrow> char" where
  "asciiLower c =
     (case map_of (zip ''ABCDEFGHIJKLMNOPQRSTUVWXYZ'' ''abcdefghijklmnopqrstuvwxyz'') c of
        None \<Rightarrow> c
      | Some l \<Rightarrow> l)"

definition EqualFold :: "string \<Rightarrow> string \<Rightarrow> bool" where
  "EqualFold s t \<longleftrightarrow> map asciiLower s = map asciiLower t"

definition specProtocol :: "strmap \<Rightarrow> Protocol" where
  "specProtocol info =
     (case map_of info ''protocol'' of
        None \<Rightarrow> ProtocolTCP
      | Some p \<Rightarrow>
          if EqualFold p ''udp'' then ProtocolUDP
          else if EqualFold p ''sctp'' then ProtocolSCTP
          else ProtocolTCP)"

text \<open>
  The status annotation of the stored workload, and whether the API server takes the next
  annotation write for a workload: the call is not rejected and the workload is stored.
\<close>

definition storedStatus :: "idleStatusController \<Rightarrow> NamespacedName \<Rightarrow> string option" where
  "storedStatus isc w =
     (case objects (kube isc) w of None \<Rightarrow> None | Some svc \<Rightarrow> svcAnnotation svc StatusAnnotation)"

definition patchAccepted :: "kubeInterface \<Rightarrow> Service \<Rightarrow> bool" where
  "patchAccepted k svc \<longleftrightarrow>
     \<not> rejects k (length (setCalls k)) \<and> objects k (svcId svc) \<noteq> None"

text \<open>
  A change of the stored workload from outside (an annotation added or removed) and the
  update notification that follows it: the handler gets the object stored before and the
  object stored now.
\<close>

definition storeObject :: "idleStatusController \<Rightarrow> Service \<Rightarrow> idleStatusController" where
  "storeObject isc svc =
     isc\<lparr>kube := (kube isc)\<lparr>objects := (objects (kube isc))(svcId svc \<mapsto> svc)\<rparr>\<rparr>"

definition observeUpdate :: "idleStatusController \<Rightarrow> Service \<Rightarrow> idleStatusController" where
  "observeUpdate isc newSvc =
     (case objects (kube isc) (svcId newSvc) of
        None \<Rightarrow> isc
      | Some oldSvc \<Rightarrow> isc_onServiceUpdate (storeObject isc newSvc) oldSvc newSvc)"

subsection \<open>Service notifications and the registry they should leave\<close>

text \<open>
  The entries derivable from the spec of a workload: one for every cluster address and
  declared port, when the workload has a set cluster address.
\<close>

definition svcEntries :: "util \<Rightarrow> Service \<Rightarrow> (ServiceVIPKey \<times> NamespacedName) list" where
  "svcEntries u svc =
     (if ServiceTypeHasClusterIP u svc \<and> IsClusterIPSet u svc
      then concat (map (\<lambda>ip. map (\<lambda>svcPort.
             (ServiceVIPKey (JoinHostPortInt32 u ip (Port svcPort)) (PortProtocol svcPort), svcId svc))
             (Ports svc)) (GetClusterIPs u svc))
      else [])"

definition svcKeys :: "util \<Rightarrow> Service \<Rightarrow> ServiceVIPKey list" where
  "svcKeys u svc = map fst (svcEntries u svc)"

text \<open>
  The notifications of the service informer and the handler each one runs; the existing
  workloads after a notification, each with the spec it was last seen with.
\<close>

datatype notification = Added Service | Updated Service Service | Deleted Service

fun notify :: "util \<Rightarrow> unidlingController \<Rightarrow> notification \<Rightarrow> unidlingController" where
  "notify u uc (Added svc) = fst (uc_onServiceAdd u uc svc)"
| "notify u uc (Updated old new) = fst (uc_onServiceUpdate u uc old new)"
| "notify u uc (Deleted svc) = uc_onServiceDelete u uc (SvcObj svc)"

fun observe :: "Service list \<Rightarrow> notification \<Rightarrow> Service list" where
  "observe ws (Added svc) = svc # filter (\<lambda>x. svcId x \<noteq> svcId svc) ws"
| "observe ws (Updated old new) = new # filter (\<lambda>x. svcId x \<noteq> svcId new) ws"
| "observe ws (Deleted svc) = filter (\<lambda>x. svcId x \<noteq> svcId svc) ws"

text \<open>
  A notification is admissible after the workloads \<open>ws\<close> when it follows the informer's
  discipline (an add is for a workload not yet there; an update or a delete carries, as
  the old object, a workload that is there with the entries it was last seen with; an
  update keeps the identity) and the keys of the added or updated spec are held by no
  other existing workload.
\<close>

definition known :: "util \<Rightarrow> Service list \<Rightarrow> Service \<Rightarrow> bool" where
  "known u ws svc \<longleftrightarrow>
     list_ex (\<lambda>x. svcId x = svcId svc \<and> svcEntries u x = svcEntries u svc) ws"

definition apart :: "util \<Rightarrow> Service list \<Rightarrow> Service \<Rightarrow> bool" where
  "apart u ws svc \<longleftrightarrow>
     list_all (\<lambda>x. svcId x = svcId svc \<or> list_all (\<lambda>k. k \<notin> set (svcKeys u svc)) (svcKeys u x)) ws"

fun admissible :: "util \<Rightarrow> Service list \<Rightarrow> notification \<Rightarrow> bool" where
  "admissible u ws (Added svc) \<longleftrightarrow> \<not> list_ex (\<lambda>x. svcId x = svcId svc) ws \<and> apart u ws svc"
| "admissible u ws (Updated old new) \<longleftrightarrow>
     svcId new = svcId old \<and> known u ws old \<and> apart u ws new"
| "admissible u ws (Deleted svc) \<longleftrightarrow> known u ws svc"

fun wellFormed :: "util \<Rightarrow> Service list \<Rightarrow> notification list \<Rightarrow> bool" where
  "wellFormed u ws [] \<longleftrightarrow> True"
| "wellFormed u ws (n # ns) \<longleftrightarrow> admissible u ws n \<and> wellFormed u (observe ws n) ns"

text \<open>
  The invariant of the registry: the existing workloads have distinct identities and
  pairwise disjoint keys, and the registry holds exactly their entries.
\<close>

definition regInv :: "util \<Rightarrow> Service list \<Rightarrow> (ServiceVIPKey \<rightharpoonup> NamespacedName) \<Rightarrow> bool" where
  "regInv u ws m \<longleftrightarrow>
     distinct (map svcId ws) \<and>
     (\<forall>x\<in>set ws. \<forall>y\<in>set ws. svcId x \<noteq> svcId y \<longrightarrow>
        set (svcKeys u x) \<inter> set (svcKeys u y) = {}) \<and>
     Map.graph m = set (concat (map (svcEntries u) ws))"

subsection \<open>Concrete inputs\<close>

text \<open>
  The workload \<^verbatim>\<open>ns/svc\<close> of the scenarios with given annotations, a client that stores
  the given workloads and rejects nothing, and a controller over it with the default grace
  period.
\<close>

definition svcWith :: "strmap option \<Rightarrow> Service" where
  "svcWith anns =
     \<lparr>Namespace = ''ns'', Name = ''svc'', Annotations = anns, SpecType = ''ClusterIP'',
      ClusterIP = ''10.0.0.5'', ClusterIPs = [''10.0.0.5''],
      Ports = [\<lparr>Port = 80, PortProtocol = ProtocolUDP\<rparr>]\<rparr>"

definition kubeStoring :: "Service list \<Rightarrow> kubeInterface" where
  "kubeStoring svcs =
     \<lparr>objects = map_of (map (\<lambda>s. (svcId s, s)) svcs), setCalls = [], rejects = (\<lambda>n. False)\<rparr>"

definition iscOver :: "kubeInterface \<Rightarrow> idleStatusController" where
  "iscOver k =
     \<lparr>kube = k, gracePeriodQueue = \<lparr>waiting = [], shuttingDown = False\<rparr>,
      gracePeriod = GracePeriodDuration, handledErrors = []\<rparr>"

text \<open>
  An unidling controller whose registry holds the entries given and whose database holds
  the events given; the three flags are the outcomes of the database calls.
\<close>

definition ucOver ::
    "(ServiceVIPKey \<times> NamespacedName) list \<Rightarrow> ControllerEvent list \<Rightarrow> bool \<Rightarrow> unidlingController" where
  "ucOver entries events failing =
     \<lparr>eventRecorder = [], serviceVIPToName = map_of entries,
      sbClient = \<lparr>rows = events, deleteOpFails = False, transactFails = failing,
                  operationFails = False\<rparr>,
      ucGracePeriodQueue = \<lparr>waiting = [], shuttingDown = False\<rparr>\<rparr>"

definition emptyLbEvent :: "strmap \<Rightarrow> ControllerEvent" where
  "emptyLbEvent info =
     \<lparr>UUID = ''e1'', EventType = ControllerEventEventTypeEmptyLbBackends, EventInfo = info\<rparr>"

text \<open>An idle-request annotation: its key ends with the reserved suffix.\<close>

definition idledAtKey :: string where
  "idledAtKey = ''idling.alpha.openshift.io/idled-at''"

text \<open>
  One instance of the helpers of package \<^verbatim>\<open>util\<close>, for the concrete inputs: a service
  type with a cluster address is ClusterIP, NodePort or LoadBalancer; the address is set
  when it is neither empty nor \<^verbatim>\<open>None\<close>; the addresses are the list \<^verbatim>\<open>ClusterIPs\<close>; host
  and port are joined by a colon, the port in decimal and an address with a colon in
  brackets.
\<close>

function showNat :: "nat \<Rightarrow> string" where
  "showNat n =
     (if n < 10 then [''0123456789'' ! n]
      else showNat (n div 10) @ [''0123456789'' ! (n mod 10)])"
  by pat_completeness auto
termination
  by (relation "measure id") auto

declare showNat.simps [simp del]

definition showInt :: "int \<Rightarrow> string" where
  "showInt i = (if i < 0 then ''-'' @ showNat (nat (- i)) else showNat (nat i))"

definition plainUtil :: util where
  "plainUtil =
     \<lparr>ServiceTypeHasClusterIP =
        (\<lambda>svc. SpecType svc = ''ClusterIP'' \<or> SpecType svc = ''NodePort'' \<or>
                SpecType svc = ''LoadBalancer''),
      IsClusterIPSet = (\<lambda>svc. ClusterIP svc \<noteq> ''None'' \<and> ClusterIP svc \<noteq> []),
      GetClusterIPs = ClusterIPs,
      JoinHostPortInt32 =
        (\<lambda>ip port. (if CHR '':'' \<in> set ip then ''['' @ ip @ '']'' else ip) @ '':'' @ showInt port)\<rparr>"

text \<open>The workload \<^verbatim>\<open>ns/name\<close> without annotations, at a given address.\<close>

definition svcAt :: "string \<Rightarrow> string \<Rightarrow> Service" where
  "svcAt name ip =
     \<lparr>Namespace = ''ns'', Name = name, Annotations = None, SpecType = ''ClusterIP'',
      ClusterIP = ip, ClusterIPs = [ip],
      Ports = [\<lparr>Port = 80, PortProtocol = ProtocolTCP\<rparr>]\<rparr>"

section \<open>Properties\<close>

subsection \<open>Facts about the collaborators\<close>

lemma svcAnnotation_setAnnotation:
  "svcAnnotation (setAnnotation s k v) k' = (if k' = k then Some v else svcAnnotation s k')"
  by (simp add: svcAnnotation_def setAnnotation_def update_conv' split: option.splits)

lemma GetIdleStatus_svcAnnotation:
  "GetIdleStatus svc =
     (case svcAnnotation svc StatusAnnotation of None \<Rightarrow> StatusNotIdle | Some v \<Rightarrow> v)"
  by (simp add: GetIdleStatus_def svcAnnotation_def split: option.splits)

lemma SetAnnotationsOnService_single:
  "SetAnnotationsOnService k (Namespace svc) (Name svc) [(a, v)] =
     (if rejects k (length (setCalls k)) then
        (Some ErrPatchRejected,
         k\<lparr>setCalls := setCalls k @ [(Namespace svc, Name svc, [(a, v)])]\<rparr>)
      else case objects k (svcId svc) of
        None \<Rightarrow>
          (Some ErrServiceNotFound,
           k\<lparr>setCalls := setCalls k @ [(Namespace svc, Name svc, [(a, v)])]\<rparr>)
      | Some s \<Rightarrow>
          (None,
           k\<lparr>setCalls := setCalls k @ [(Namespace svc, Name svc, [(a, v)])],
             objects := (objects k)(svcId svc \<mapsto> setAnnotation s a v)\<rparr>))"
  by (simp add: SetAnnotationsOnService_def svcId_def Let_def split: option.splits)

lemmas status_defs = StatusAnnotation_def StatusIdle_def StatusGracePeriod_def StatusNotIdle_def

lemmas protocol_defs = ProtocolTCP_def ProtocolUDP_def ProtocolSCTP_def

lemmas input_defs = svcWith_def kubeStoring_def iscOver_def ucOver_def emptyLbEvent_def svcId_def

lemmas marker_defs = hasIdleAt_def HasSuffix_def idledAtKey_def OvnServiceIdledSuffix_def

subsection \<open>The event bridge\<close>

text \<open>
  When the acknowledgement fails the handler returns the error, records nothing and
  leaves the rows of the database as they are.
\<close>

lemma handleLbEmptyBackendsEvent_ack_failed:
  assumes "\<not> ackSucceeds (sbClient uc)"
  shows "fst (handleLbEmptyBackendsEvent uc event) \<noteq> None \<and>
         eventRecorder (snd (handleLbEmptyBackendsEvent uc event)) = eventRecorder uc \<and>
         rows (sbClient (snd (handleLbEmptyBackendsEvent uc event))) = rows (sbClient uc)"
  using assms
  by (auto simp: handleLbEmptyBackendsEvent_def ackSucceeds_def WhereDelete_def Transact_def
      CheckOperationResults_def Let_def)

text \<open>
  C3, as the code has it: the protocol is UDP exactly when the \<^verbatim>\<open>protocol\<close> field is the
  lower-case string \<^verbatim>\<open>udp\<close>, SCTP exactly when it is the lower-case string \<^verbatim>\<open>sctp\<close>, and
  TCP in every other case, an absent field and \<^verbatim>\<open>UDP\<close> or \<^verbatim>\<open>Sctp\<close> among them. The
  comparison is exact, not case-insensitive.
\<close>

theorem eventProtocol_exact_match:
  "(eventProtocol info = ProtocolUDP \<longleftrightarrow> map_of info ''protocol'' = Some ''udp'') \<and>
   (eventProtocol info = ProtocolSCTP \<longleftrightarrow> map_of info ''protocol'' = Some ''sctp'') \<and>
   (eventProtocol info = ProtocolTCP \<longleftrightarrow>
      map_of info ''protocol'' \<noteq> Some ''udp'' \<and> map_of info ''protocol'' \<noteq> Some ''sctp'')"
  by (auto simp: eventProtocol_def mapIndex_def protocol_defs split: option.splits)

text \<open>
  The claim C3 as written fails on the payload whose protocol is \<^verbatim>\<open>UDP\<close> in capitals:
  the specification's reading gives UDP, the handler takes TCP, and so finds nothing
  under a registry entry for UDP.
\<close>

theorem eventProtocol_uppercase_counterexample:
  "specProtocol [(''vip'', ''10.0.0.5:80''), (''protocol'', ''UDP'')] = ProtocolUDP \<and>
   eventProtocol [(''vip'', ''10.0.0.5:80''), (''protocol'', ''UDP'')] = ProtocolTCP \<and>
   eventProtocol [(''vip'', ''10.0.0.5:80''), (''protocol'', ''UDP'')] \<noteq>
     specProtocol [(''vip'', ''10.0.0.5:80''), (''protocol'', ''UDP'')] \<and>
   eventRecorder (snd (handleLbEmptyBackendsEvent
       (ucOver [(ServiceVIPKey ''10.0.0.5:80'' ProtocolUDP, NamespacedName ''ns'' ''svc'')]
          [emptyLbEvent [(''vip'', ''10.0.0.5:80''), (''protocol'', ''UDP'')]] False)
       (emptyLbEvent [(''vip'', ''10.0.0.5:80''), (''protocol'', ''UDP'')]))) = []"
  by (simp add: eventProtocol_def mapIndex_def specProtocol_def EqualFold_def asciiLower_def
      protocol_defs input_defs handleLbEmptyBackendsEvent_def WhereDelete_def Transact_def
      CheckOperationResults_def GetServiceVIPToName_def)

text \<open>
  C4: when the acknowledgement goes through and the payload has a \<^verbatim>\<open>vip\<close>, the handler
  returns no error, the rows with the event's UUID are gone from the database, and the
  recorder has gained exactly one event if the registry has an entry for the vip and the
  protocol of the event, and nothing if it has none. The recorded event refers to the
  owning workload: its object reference has the kind Service and the namespace and name
  of the owner; its type is Normal, its reason NeedPods, and its message names the owner.
  Nothing else of the controller changes.
\<close>

theorem handleLbEmptyBackendsEvent_wakes_owner:
  assumes "ackSucceeds (sbClient uc)"
      and "map_of (EventInfo event) ''vip'' = Some v"
  shows "handleLbEmptyBackendsEvent uc event =
     (None, (acknowledged uc event)\<lparr>eventRecorder := eventRecorder uc @
        (case serviceVIPToName uc (ServiceVIPKey v (eventProtocol (EventInfo event))) of
           Some owner \<Rightarrow>
             [\<lparr>refKind = ''Service'', refNamespace = nnNamespace owner,
               refName = nnName owner, eventtype = ''Normal'', reason = ''NeedPods'',
               message = ''The service '' @ nnName owner @ '' needs pods''\<rparr>]
         | None \<Rightarrow> [])\<rparr>)"
  using assms
  by (simp add: handleLbEmptyBackendsEvent_def ackSucceeds_def acknowledged_def WhereDelete_def
      Transact_def CheckOperationResults_def GetServiceVIPToName_def needPodsEvent_def Let_def
      split: option.splits)

text \<open>
  Scenario 6 of the specification: a hit records one event, and its reference is the
  Service \<^verbatim>\<open>svc\<close> in the namespace \<^verbatim>\<open>ns\<close>.
\<close>

theorem handleLbEmptyBackendsEvent_wakes_owner_witness:
  "ackSucceeds (sbClient
      (ucOver [(ServiceVIPKey ''10.0.0.5:80'' ProtocolUDP, NamespacedName ''ns'' ''svc'')]
         [emptyLbEvent [(''vip'', ''10.0.0.5:80''), (''protocol'', ''udp'')]] False)) \<and>
   map_of (EventInfo (emptyLbEvent [(''vip'', ''10.0.0.5:80''), (''protocol'', ''udp'')])) ''vip'' =
     Some ''10.0.0.5:80'' \<and>
   handleLbEmptyBackendsEvent
      (ucOver [(ServiceVIPKey ''10.0.0.5:80'' ProtocolUDP, NamespacedName ''ns'' ''svc'')]
         [emptyLbEvent [(''vip'', ''10.0.0.5:80''), (''protocol'', ''udp'')]] False)
      (emptyLbEvent [(''vip'', ''10.0.0.5:80''), (''protocol'', ''udp'')]) =
     (None,
      (ucOver [(ServiceVIPKey ''10.0.0.5:80'' ProtocolUDP, NamespacedName ''ns'' ''svc'')] [] False)
        \<lparr>eventRecorder :=
           [\<lparr>refKind = ''Service'', refNamespace = ''ns'', refName = ''svc'',
             eventtype = ''Normal'', reason = ''NeedPods'',
             message = ''The service svc needs pods''\<rparr>]\<rparr>)"
  using handleLbEmptyBackendsEvent_wakes_owner
    [of "ucOver [(ServiceVIPKey ''10.0.0.5:80'' ProtocolUDP, NamespacedName ''ns'' ''svc'')]
           [emptyLbEvent [(''vip'', ''10.0.0.5:80''), (''protocol'', ''udp'')]] False"
        "emptyLbEvent [(''vip'', ''10.0.0.5:80''), (''protocol'', ''udp'')]" "''10.0.0.5:80''"]
  by (simp add: ackSucceeds_def acknowledged_def input_defs eventProtocol_def mapIndex_def
      protocol_defs)

text \<open>
  C8: when the acknowledgement goes through and the payload has no \<^verbatim>\<open>vip\<close>, the handler
  returns no error; the rows with the event's UUID are gone from the database and nothing
  else of the controller changes, so no event is recorded.
\<close>

theorem handleLbEmptyBackendsEvent_missing_vip:
  assumes "ackSucceeds (sbClient uc)"
      and "map_of (EventInfo event) ''vip'' = None"
  shows "handleLbEmptyBackendsEvent uc event = (None, acknowledged uc event)"
  using assms
  by (simp add: handleLbEmptyBackendsEvent_def ackSucceeds_def acknowledged_def WhereDelete_def
      Transact_def CheckOperationResults_def Let_def)

theorem handleLbEmptyBackendsEvent_missing_vip_witness:
  "ackSucceeds (sbClient
      (ucOver [(ServiceVIPKey ''10.0.0.5:80'' ProtocolTCP, NamespacedName ''ns'' ''svc'')]
         [emptyLbEvent [(''protocol'', ''tcp'')]] False)) \<and>
   map_of (EventInfo (emptyLbEvent [(''protocol'', ''tcp'')])) ''vip'' = None \<and>
   handleLbEmptyBackendsEvent
      (ucOver [(ServiceVIPKey ''10.0.0.5:80'' ProtocolTCP, NamespacedName ''ns'' ''svc'')]
         [emptyLbEvent [(''protocol'', ''tcp'')]] False)
      (emptyLbEvent [(''protocol'', ''tcp'')]) =
     (None, ucOver [(ServiceVIPKey ''10.0.0.5:80'' ProtocolTCP, NamespacedName ''ns'' ''svc'')] [] False)"
  using handleLbEmptyBackendsEvent_missing_vip
    [of "ucOver [(ServiceVIPKey ''10.0.0.5:80'' ProtocolTCP, NamespacedName ''ns'' ''svc'')]
           [emptyLbEvent [(''protocol'', ''tcp'')]] False"
        "emptyLbEvent [(''protocol'', ''tcp'')]"]
  by (simp add: ackSucceeds_def acknowledged_def input_defs)

subsection \<open>The idle status\<close>

text \<open>
  C7, as the code has it: \<^verbatim>\<open>GetIdleStatus\<close> returns NotIdle for a nil annotation map and
  for a map without the status annotation, and otherwise the value of the annotation as
  it is stored. The result is one of the three statuses exactly when the annotation is
  absent or holds one of the three.
\<close>

theorem GetIdleStatus_returns_stored_value:
  "GetIdleStatus (svc\<lparr>Annotations := None\<rparr>) = StatusNotIdle \<and>
   GetIdleStatus svc =
     (case svcAnnotation svc StatusAnnotation of None \<Rightarrow> StatusNotIdle | Some v \<Rightarrow> v) \<and>
   (GetIdleStatus svc \<in> {StatusIdle, StatusGracePeriod, StatusNotIdle} \<longleftrightarrow>
      svcAnnotation svc StatusAnnotation \<in>
        {None, Some StatusIdle, Some StatusGracePeriod, Some StatusNotIdle})"
  by (auto simp: GetIdleStatus_def svcAnnotation_def split: option.splits)

text \<open>
  The claim C7 as written fails on a workload whose status annotation holds a string that
  is none of the three: the string itself is returned.
\<close>

theorem GetIdleStatus_foreign_value_counterexample:
  "GetIdleStatus (svcWith (Some [(StatusAnnotation, ''Paused'')])) = ''Paused'' \<and>
   GetIdleStatus (svcWith (Some [(StatusAnnotation, ''Paused'')])) \<notin>
     {StatusIdle, StatusGracePeriod, StatusNotIdle}"
  by (simp add: GetIdleStatus_def svcWith_def StatusIdle_def StatusGracePeriod_def
      StatusNotIdle_def)

text \<open>
  C9: if the annotation write of \<^verbatim>\<open>markServiceAsGracePeriod\<close> fails with an error, the
  function returns that error wrapped, and the delay queue is the one it started with.
\<close>

theorem markServiceAsGracePeriod_write_fails:
  assumes "fst (SetAnnotationsOnService (kube isc) (Namespace svc) (Name svc)
             [(StatusAnnotation, StatusGracePeriod)]) = Some e"
  shows "fst (markServiceAsGracePeriod isc svc) = Some (ErrCantSetStatus StatusGracePeriod e) \<and>
         gracePeriodQueue (snd (markServiceAsGracePeriod isc svc)) = gracePeriodQueue isc"
  using assms
  by (auto simp: markServiceAsGracePeriod_def split: prod.splits option.splits sum.splits)

text \<open>The write fails for a workload that the API server does not store.\<close>

theorem markServiceAsGracePeriod_write_fails_witness:
  "fst (SetAnnotationsOnService (kube (iscOver (kubeStoring []))) (Namespace (svcWith None))
          (Name (svcWith None)) [(StatusAnnotation, StatusGracePeriod)]) = Some ErrServiceNotFound \<and>
   fst (markServiceAsGracePeriod (iscOver (kubeStoring [])) (svcWith None)) =
     Some (ErrCantSetStatus StatusGracePeriod ErrServiceNotFound) \<and>
   gracePeriodQueue (snd (markServiceAsGracePeriod (iscOver (kubeStoring [])) (svcWith None))) =
     \<lparr>waiting = [], shuttingDown = False\<rparr>"
  using markServiceAsGracePeriod_write_fails
    [of "iscOver (kubeStoring [])" "svcWith None" ErrServiceNotFound]
  by (simp add: SetAnnotationsOnService_def input_defs)

text \<open>
  C10: \<^verbatim>\<open>markServiceAsNotIdle\<close> does nothing and returns no error when the status
  annotation is absent, a nil annotation map included. For every stored value other than
  the strings Idle and NotIdle, whether GracePeriod or a string outside the three, it
  makes exactly one annotation write, of NotIdle; when the API server takes the write,
  it returns no error and the stored status is NotIdle.
\<close>

theorem markServiceAsNotIdle_writes_unless_settled:
  "markServiceAsNotIdle isc (svc\<lparr>Annotations := None\<rparr>) = (None, isc) \<and>
   (svcAnnotation svc StatusAnnotation = None \<longrightarrow> markServiceAsNotIdle isc svc = (None, isc)) \<and>
   (\<forall>status. svcAnnotation svc StatusAnnotation = Some status \<and>
        status \<noteq> StatusIdle \<and> status \<noteq> StatusNotIdle \<longrightarrow>
      setCalls (kube (snd (markServiceAsNotIdle isc svc))) =
        setCalls (kube isc) @ [(Namespace svc, Name svc, [(StatusAnnotation, StatusNotIdle)])] \<and>
      (patchAccepted (kube isc) svc \<longrightarrow>
         fst (markServiceAsNotIdle isc svc) = None \<and>
         storedStatus (snd (markServiceAsNotIdle isc svc)) (svcId svc) = Some StatusNotIdle))"
  by (auto simp: markServiceAsNotIdle_def svcAnnotation_def SetAnnotationsOnService_single
      patchAccepted_def storedStatus_def svcAnnotation_setAnnotation[unfolded svcAnnotation_def]
      split: option.splits)

text \<open>A stored value outside the three statuses is overwritten with NotIdle.\<close>

theorem markServiceAsNotIdle_writes_unless_settled_witness:
  "svcAnnotation (svcWith (Some [(StatusAnnotation, ''Paused'')])) StatusAnnotation = Some ''Paused'' \<and>
   ''Paused'' \<noteq> StatusIdle \<and> ''Paused'' \<noteq> StatusNotIdle \<and>
   patchAccepted (kube (iscOver (kubeStoring [svcWith (Some [(StatusAnnotation, ''Paused'')])])))
     (svcWith (Some [(StatusAnnotation, ''Paused'')])) \<and>
   setCalls (kube (snd (markServiceAsNotIdle
       (iscOver (kubeStoring [svcWith (Some [(StatusAnnotation, ''Paused'')])]))
       (svcWith (Some [(StatusAnnotation, ''Paused'')]))))) =
     [(''ns'', ''svc'', [(StatusAnnotation, StatusNotIdle)])] \<and>
   storedStatus (snd (markServiceAsNotIdle
       (iscOver (kubeStoring [svcWith (Some [(StatusAnnotation, ''Paused'')])]))
       (svcWith (Some [(StatusAnnotation, ''Paused'')]))))
     (NamespacedName ''ns'' ''svc'') = Some StatusNotIdle"
  using markServiceAsNotIdle_writes_unless_settled
    [of "iscOver (kubeStoring [svcWith (Some [(StatusAnnotation, ''Paused'')])])"
        "svcWith (Some [(StatusAnnotation, ''Paused'')])"]
  by (simp add: svcAnnotation_def patchAccepted_def input_defs StatusIdle_def StatusNotIdle_def)

subsection \<open>The state machine\<close>

text \<open>
  C1, as the code has it: on an update that takes the idle-request marker from true to
  false the controller makes exactly one annotation write, of GracePeriod, whatever the
  status of the workload is (Idle, GracePeriod, NotIdle, absent or anything else), and it
  schedules the grace timer under the key of the workload exactly when the API server
  takes that write.
\<close>

theorem isc_onServiceUpdate_unidled:
  assumes "hasIdleAt (Some oldSvc)" and "\<not> hasIdleAt (Some newSvc)"
  shows "setCalls (kube (isc_onServiceUpdate isc oldSvc newSvc)) =
           setCalls (kube isc) @
             [(Namespace newSvc, Name newSvc, [(StatusAnnotation, StatusGracePeriod)])] \<and>
         gracePeriodQueue (isc_onServiceUpdate isc oldSvc newSvc) =
           (if patchAccepted (kube isc) newSvc
            then AddAfter (gracePeriodQueue isc) (serviceKey newSvc) (gracePeriod isc)
            else gracePeriodQueue isc)"
  using assms
  by (auto simp: isc_onServiceUpdate_def markServiceAsGracePeriod_def
      SetAnnotationsOnService_single patchAccepted_def serviceKey_def MetaNamespaceKeyFunc_def
      HandleError_def split: option.splits)

text \<open>Scenario 3 of the specification: the status is Idle and the marker goes away.\<close>

theorem isc_onServiceUpdate_unidled_witness:
  "hasIdleAt (Some (svcWith (Some [(idledAtKey, ''t''), (StatusAnnotation, StatusIdle)]))) \<and>
   \<not> hasIdleAt (Some (svcWith (Some [(StatusAnnotation, StatusIdle)]))) \<and>
   patchAccepted (kube (iscOver (kubeStoring [svcWith (Some [(StatusAnnotation, StatusIdle)])])))
     (svcWith (Some [(StatusAnnotation, StatusIdle)])) \<and>
   setCalls (kube (isc_onServiceUpdate
       (iscOver (kubeStoring [svcWith (Some [(StatusAnnotation, StatusIdle)])]))
       (svcWith (Some [(idledAtKey, ''t''), (StatusAnnotation, StatusIdle)]))
       (svcWith (Some [(StatusAnnotation, StatusIdle)])))) =
     [(''ns'', ''svc'', [(StatusAnnotation, StatusGracePeriod)])] \<and>
   gracePeriodQueue (isc_onServiceUpdate
       (iscOver (kubeStoring [svcWith (Some [(StatusAnnotation, StatusIdle)])]))
       (svcWith (Some [(idledAtKey, ''t''), (StatusAnnotation, StatusIdle)]))
       (svcWith (Some [(StatusAnnotation, StatusIdle)]))) =
     \<lparr>waiting = [(''ns/svc'', 30)], shuttingDown = False\<rparr>"
  using isc_onServiceUpdate_unidled
    [of "svcWith (Some [(idledAtKey, ''t''), (StatusAnnotation, StatusIdle)])"
        "svcWith (Some [(StatusAnnotation, StatusIdle)])"
        "iscOver (kubeStoring [svcWith (Some [(StatusAnnotation, StatusIdle)])])"]
  by (simp add: marker_defs input_defs status_defs patchAccepted_def serviceKey_def
      MetaNamespaceKeyFunc_def AddAfter_def GracePeriodDuration_def)

text \<open>
  The claim C1 as written fails when the status is NotIdle or GracePeriod: the update is
  not a no-op, the controller writes GracePeriod and schedules the timer.
\<close>

theorem isc_onServiceUpdate_unidled_counterexample:
  "storedStatus (iscOver (kubeStoring [svcWith (Some [(StatusAnnotation, StatusNotIdle)])]))
     (NamespacedName ''ns'' ''svc'') = Some StatusNotIdle \<and>
   hasIdleAt (Some (svcWith (Some [(idledAtKey, ''t''), (StatusAnnotation, StatusNotIdle)]))) \<and>
   \<not> hasIdleAt (Some (svcWith (Some [(StatusAnnotation, StatusNotIdle)]))) \<and>
   setCalls (kube (isc_onServiceUpdate
       (iscOver (kubeStoring [svcWith (Some [(StatusAnnotation, StatusNotIdle)])]))
       (svcWith (Some [(idledAtKey, ''t''), (StatusAnnotation, StatusNotIdle)]))
       (svcWith (Some [(StatusAnnotation, StatusNotIdle)])))) =
     [(''ns'', ''svc'', [(StatusAnnotation, StatusGracePeriod)])] \<and>
   waiting (gracePeriodQueue (isc_onServiceUpdate
       (iscOver (kubeStoring [svcWith (Some [(StatusAnnotation, StatusNotIdle)])]))
       (svcWith (Some [(idledAtKey, ''t''), (StatusAnnotation, StatusNotIdle)]))
       (svcWith (Some [(StatusAnnotation, StatusNotIdle)])))) = [(''ns/svc'', 30)] \<and>
   storedStatus (isc_onServiceUpdate
       (iscOver (kubeStoring [svcWith (Some [(StatusAnnotation, StatusNotIdle)])]))
       (svcWith (Some [(idledAtKey, ''t''), (StatusAnnotation, StatusNotIdle)]))
       (svcWith (Some [(StatusAnnotation, StatusNotIdle)])))
     (NamespacedName ''ns'' ''svc'') = Some StatusGracePeriod \<and>
   waiting (gracePeriodQueue (isc_onServiceUpdate
       (iscOver (kubeStoring [svcWith (Some [(StatusAnnotation, StatusGracePeriod)])]))
       (svcWith (Some [(idledAtKey, ''t''), (StatusAnnotation, StatusGracePeriod)]))
       (svcWith (Some [(StatusAnnotation, StatusGracePeriod)])))) = [(''ns/svc'', 30)]"
  by (simp add: storedStatus_def input_defs svcAnnotation_def marker_defs status_defs
      isc_onServiceUpdate_def markServiceAsGracePeriod_def SetAnnotationsOnService_def
      setAnnotation_def MetaNamespaceKeyFunc_def AddAfter_def GracePeriodDuration_def)

text \<open>
  C2, as the code has it: when the grace timer of a workload fires and the workload is
  not stored, the key is dropped: no write, no error, nothing but the queue changes.
  When the workload is stored and its status annotation is absent, Idle or NotIdle,
  likewise nothing but the queue changes. For every other stored status the controller
  makes exactly one annotation write, of NotIdle. The idle-request marker of the workload
  is not looked at.
\<close>

theorem processNextWorkItem_expiry:
  assumes "Get (gracePeriodQueue isc) = Item key q"
      and "SplitMetaNamespaceKey key = Inr (namespace, name)"
  shows "(objects (kube isc) (NamespacedName namespace name) = None \<longrightarrow>
            processNextWorkItem isc = Some (True, isc\<lparr>gracePeriodQueue := q\<rparr>)) \<and>
         (\<forall>svc. objects (kube isc) (NamespacedName namespace name) = Some svc \<longrightarrow>
            (if svcAnnotation svc StatusAnnotation \<in> {None, Some StatusIdle, Some StatusNotIdle}
             then processNextWorkItem isc = Some (True, isc\<lparr>gracePeriodQueue := q\<rparr>)
             else \<exists>isc1. processNextWorkItem isc = Some (True, isc1) \<and>
                    setCalls (kube isc1) = setCalls (kube isc) @
                      [(Namespace svc, Name svc, [(StatusAnnotation, StatusNotIdle)])]))"
  using assms
  by (auto simp: processNextWorkItem_def syncKey_def markServiceAsNotIdle_def svcAnnotation_def
      SetAnnotationsOnService_single HandleError_def split: option.splits)

text \<open>
  Scenario 4 of the specification: the timer fires, the status is still GracePeriod and
  there is no marker; NotIdle is written.
\<close>

theorem processNextWorkItem_expiry_witness:
  "Get (gracePeriodQueue
      ((iscOver (kubeStoring [svcWith (Some [(StatusAnnotation, StatusGracePeriod)])]))
         \<lparr>gracePeriodQueue := \<lparr>waiting = [(''ns/svc'', 30)], shuttingDown = False\<rparr>\<rparr>)) =
     Item ''ns/svc'' \<lparr>waiting = [], shuttingDown = False\<rparr> \<and>
   SplitMetaNamespaceKey ''ns/svc'' = Inr (''ns'', ''svc'') \<and>
   objects (kube (iscOver (kubeStoring [svcWith (Some [(StatusAnnotation, StatusGracePeriod)])])))
     (NamespacedName ''ns'' ''svc'') = Some (svcWith (Some [(StatusAnnotation, StatusGracePeriod)])) \<and>
   (\<exists>isc1. processNextWorkItem
        ((iscOver (kubeStoring [svcWith (Some [(StatusAnnotation, StatusGracePeriod)])]))
           \<lparr>gracePeriodQueue := \<lparr>waiting = [(''ns/svc'', 30)], shuttingDown = False\<rparr>\<rparr>) =
        Some (True, isc1) \<and>
      setCalls (kube isc1) = [(''ns'', ''svc'', [(StatusAnnotation, StatusNotIdle)])])"
  using processNextWorkItem_expiry
    [of "(iscOver (kubeStoring [svcWith (Some [(StatusAnnotation, StatusGracePeriod)])]))
           \<lparr>gracePeriodQueue := \<lparr>waiting = [(''ns/svc'', 30)], shuttingDown = False\<rparr>\<rparr>"
        "''ns/svc''" "\<lparr>waiting = [], shuttingDown = False\<rparr>" "''ns''" "''svc''"]
  by (simp add: Get_def SplitMetaNamespaceKey_def input_defs svcAnnotation_def status_defs)

text \<open>
  The claim C2 as written fails on a workload that carries the idle-request marker while
  its status is GracePeriod: the claim has no write there, the controller writes NotIdle.
\<close>

theorem processNextWorkItem_marker_counterexample:
  "hasIdleAt (Some (svcWith (Some [(idledAtKey, ''t''), (StatusAnnotation, StatusGracePeriod)]))) \<and>
   map_option (\<lambda>r. setCalls (kube (snd r)))
     (processNextWorkItem
        ((iscOver (kubeStoring
            [svcWith (Some [(idledAtKey, ''t''), (StatusAnnotation, StatusGracePeriod)])]))
           \<lparr>gracePeriodQueue := \<lparr>waiting = [(''ns/svc'', 30)], shuttingDown = False\<rparr>\<rparr>)) =
     Some [(''ns'', ''svc'', [(StatusAnnotation, StatusNotIdle)])] \<and>
   map_option (\<lambda>r. storedStatus (snd r) (NamespacedName ''ns'' ''svc''))
     (processNextWorkItem
        ((iscOver (kubeStoring
            [svcWith (Some [(idledAtKey, ''t''), (StatusAnnotation, StatusGracePeriod)])]))
           \<lparr>gracePeriodQueue := \<lparr>waiting = [(''ns/svc'', 30)], shuttingDown = False\<rparr>\<rparr>)) =
     Some (Some StatusNotIdle)"
  by (simp add: marker_defs input_defs status_defs processNextWorkItem_def Get_def syncKey_def
      SplitMetaNamespaceKey_def markServiceAsNotIdle_def SetAnnotationsOnService_def
      setAnnotation_def storedStatus_def svcAnnotation_def)

subsection \<open>Idling again within the grace period\<close>

lemma splitSlash_no_slash: "CHR ''/'' \<notin> set s \<Longrightarrow> splitSlash s = [s]"
  by (induction s) auto

lemma splitSlash_at_slash:
  "CHR ''/'' \<notin> set a \<Longrightarrow> splitSlash (a @ CHR ''/'' # b) = a # splitSlash b"
  by (induction a) auto

lemma SplitMetaNamespaceKey_serviceKey:
  assumes "CHR ''/'' \<notin> set (Namespace svc)" and "CHR ''/'' \<notin> set (Name svc)"
  shows "SplitMetaNamespaceKey (serviceKey svc) = Inr (Namespace svc, Name svc)"
  using assms
  by (simp add: SplitMetaNamespaceKey_def serviceKey_def MetaNamespaceKeyFunc_def
      splitSlash_no_slash splitSlash_at_slash)

lemma observeUpdate_unidle:
  assumes "objects (kube isc) (svcId svc0) = Some svc0"
      and "hasIdleAt (Some svc0)"
      and "\<not> rejects (kube isc) (length (setCalls (kube isc)))"
      and "svcId svc1 = svcId svc0" and "\<not> hasIdleAt (Some svc1)"
  shows "observeUpdate isc svc1 =
     isc\<lparr>kube := (kube isc)\<lparr>
            setCalls := setCalls (kube isc) @
              [(Namespace svc1, Name svc1, [(StatusAnnotation, StatusGracePeriod)])],
            objects := (objects (kube isc))(svcId svc0 \<mapsto>
              setAnnotation svc1 StatusAnnotation StatusGracePeriod)\<rparr>,
         gracePeriodQueue := AddAfter (gracePeriodQueue isc) (serviceKey svc1) (gracePeriod isc)\<rparr>"
  using assms
  by (simp add: observeUpdate_def storeObject_def isc_onServiceUpdate_def
      markServiceAsGracePeriod_def SetAnnotationsOnService_single serviceKey_def
      MetaNamespaceKeyFunc_def)

lemma observeUpdate_idle:
  assumes "objects (kube isc) (svcId svc2) \<noteq> None"
      and "hasIdleAt (Some svc2)"
      and "\<not> rejects (kube isc) (length (setCalls (kube isc)))"
      and "svcAnnotation svc2 StatusAnnotation \<noteq> Some StatusIdle"
  shows "observeUpdate isc svc2 =
     isc\<lparr>kube := (kube isc)\<lparr>
            setCalls := setCalls (kube isc) @
              [(Namespace svc2, Name svc2, [(StatusAnnotation, StatusIdle)])],
            objects := (objects (kube isc))(svcId svc2 \<mapsto>
              setAnnotation svc2 StatusAnnotation StatusIdle)\<rparr>\<rparr>"
  using assms
  by (auto simp: observeUpdate_def storeObject_def isc_onServiceUpdate_def svcAnnotation_def
      markServiceAsIdleIfNeeded_def SetAnnotationsOnService_single split: option.splits)

lemma syncKey_stored_Idle:
  assumes "SplitMetaNamespaceKey key = Inr (namespace, name)"
      and "storedStatus isc (NamespacedName namespace name) = Some StatusIdle"
  shows "syncKey isc key = (None, isc)"
  using assms
  by (auto simp: syncKey_def storedStatus_def markServiceAsNotIdle_def svcAnnotation_def
      split: option.splits)

text \<open>
  C6: a workload is stored with the idle-request marker, the API server rejects no write,
  and namespace and name have no slash. The marker is taken away and the update is
  handled; then the marker is put back, on the object with the status as it is stored by
  then, and that update is handled. After the first update the stored status is
  GracePeriod and one grace timer is scheduled under the key of the workload. After the
  second the stored status is Idle. The expiry of the timer for that key then returns no
  error and changes nothing; if no other key waited in the queue, the next work item is
  that expiry and it makes no annotation write. This holds for every stored status at
  the start, Idle among them.
\<close>

theorem idle_round_trip:
  assumes stored: "objects (kube isc) (svcId svc0) = Some svc0"
      and idle0: "hasIdleAt (Some svc0)"
      and ok: "\<forall>n. \<not> rejects (kube isc) n"
      and names: "CHR ''/'' \<notin> set (Namespace svc0)" "CHR ''/'' \<notin> set (Name svc0)"
      and unidled: "svcId svc1 = svcId svc0" "\<not> hasIdleAt (Some svc1)"
      and idled: "svcId svc2 = svcId svc0" "hasIdleAt (Some svc2)"
      and seen: "svcAnnotation svc2 StatusAnnotation = storedStatus (observeUpdate isc svc1) (svcId svc0)"
  shows "storedStatus (observeUpdate isc svc1) (svcId svc0) = Some StatusGracePeriod \<and>
         gracePeriodQueue (observeUpdate (observeUpdate isc svc1) svc2) =
           AddAfter (gracePeriodQueue isc) (serviceKey svc0) (gracePeriod isc) \<and>
         storedStatus (observeUpdate (observeUpdate isc svc1) svc2) (svcId svc0) = Some StatusIdle \<and>
         syncKey (observeUpdate (observeUpdate isc svc1) svc2) (serviceKey svc0) =
           (None, observeUpdate (observeUpdate isc svc1) svc2) \<and>
         (waiting (gracePeriodQueue isc) = [] \<longrightarrow>
            (\<exists>isc3. processNextWorkItem (observeUpdate (observeUpdate isc svc1) svc2) = Some (True, isc3) \<and>
               setCalls (kube isc3) = setCalls (kube (observeUpdate (observeUpdate isc svc1) svc2)) \<and>
               storedStatus isc3 (svcId svc0) = Some StatusIdle \<and> handledErrors isc3 = handledErrors isc))"
proof -
  let ?isc1 = "observeUpdate isc svc1"
  let ?isc2 = "observeUpdate ?isc1 svc2"
  have key: "serviceKey svc1 = serviceKey svc0"
    using unidled(1) by (simp add: svcId_def serviceKey_def MetaNamespaceKeyFunc_def)
  have one: "?isc1 =
     isc\<lparr>kube := (kube isc)\<lparr>
            setCalls := setCalls (kube isc) @
              [(Namespace svc1, Name svc1, [(StatusAnnotation, StatusGracePeriod)])],
            objects := (objects (kube isc))(svcId svc0 \<mapsto>
              setAnnotation svc1 StatusAnnotation StatusGracePeriod)\<rparr>,
         gracePeriodQueue := AddAfter (gracePeriodQueue isc) (serviceKey svc1) (gracePeriod isc)\<rparr>"
    using stored idle0 ok unidled by (intro observeUpdate_unidle) auto
  have st1: "storedStatus ?isc1 (svcId svc0) = Some StatusGracePeriod"
    by (simp add: one storedStatus_def svcAnnotation_setAnnotation)
  have ne: "svcAnnotation svc2 StatusAnnotation \<noteq> Some StatusIdle"
    using seen st1 by (simp add: status_defs)
  have two: "?isc2 =
     ?isc1\<lparr>kube := (kube ?isc1)\<lparr>
            setCalls := setCalls (kube ?isc1) @
              [(Namespace svc2, Name svc2, [(StatusAnnotation, StatusIdle)])],
            objects := (objects (kube ?isc1))(svcId svc2 \<mapsto>
              setAnnotation svc2 StatusAnnotation StatusIdle)\<rparr>\<rparr>"
  proof (rule observeUpdate_idle)
    show "objects (kube ?isc1) (svcId svc2) \<noteq> None" by (simp add: one idled(1))
    show "hasIdleAt (Some svc2)" by (rule idled(2))
    show "\<not> rejects (kube ?isc1) (length (setCalls (kube ?isc1)))" using ok by (simp add: one)
    show "svcAnnotation svc2 StatusAnnotation \<noteq> Some StatusIdle" by (rule ne)
  qed
  have q2: "gracePeriodQueue ?isc2 = AddAfter (gracePeriodQueue isc) (serviceKey svc0) (gracePeriod isc)"
    by (subst two) (simp add: one key)
  have st2: "storedStatus ?isc2 (svcId svc0) = Some StatusIdle"
    by (subst two) (simp add: storedStatus_def idled(1) svcAnnotation_setAnnotation)
  have split: "SplitMetaNamespaceKey (serviceKey svc0) = Inr (Namespace svc0, Name svc0)"
    using names by (rule SplitMetaNamespaceKey_serviceKey)
  have sync: "\<And>i. storedStatus i (svcId svc0) = Some StatusIdle \<Longrightarrow> syncKey i (serviceKey svc0) = (None, i)"
    using split by (rule syncKey_stored_Idle) (simp add: svcId_def)
  have expiry: "syncKey ?isc2 (serviceKey svc0) = (None, ?isc2)"
    using st2 by (rule sync)
  have last: "\<exists>isc3. processNextWorkItem ?isc2 = Some (True, isc3) \<and>
               setCalls (kube isc3) = setCalls (kube ?isc2) \<and>
               storedStatus isc3 (svcId svc0) = Some StatusIdle \<and> handledErrors isc3 = handledErrors isc"
    if empty: "waiting (gracePeriodQueue isc) = []"
  proof -
    let ?q = "(gracePeriodQueue ?isc2)\<lparr>waiting := []\<rparr>"
    have get: "Get (gracePeriodQueue ?isc2) = Item (serviceKey svc0) ?q"
      by (simp add: q2 Get_def AddAfter_def empty)
    have st3: "storedStatus (?isc2\<lparr>gracePeriodQueue := ?q\<rparr>) (svcId svc0) = Some StatusIdle"
      using st2 by (simp add: storedStatus_def)
    have "processNextWorkItem ?isc2 = Some (True, ?isc2\<lparr>gracePeriodQueue := ?q\<rparr>)"
      by (simp add: processNextWorkItem_def get sync[OF st3])
    moreover have "handledErrors ?isc2 = handledErrors isc"
      by (subst two) (simp add: one)
    ultimately show ?thesis using st3 by simp
  qed
  show ?thesis using st1 q2 st2 expiry last by blast
qed


text \<open>The round trip from the stored status Idle.\<close>

theorem idle_round_trip_witness:
  "objects (kube (iscOver (kubeStoring [svcWith (Some [(idledAtKey, ''t''), (StatusAnnotation, StatusIdle)])])))
     (svcId (svcWith (Some [(idledAtKey, ''t''), (StatusAnnotation, StatusIdle)]))) =
     Some (svcWith (Some [(idledAtKey, ''t''), (StatusAnnotation, StatusIdle)])) \<and>
   storedStatus (iscOver (kubeStoring [svcWith (Some [(idledAtKey, ''t''), (StatusAnnotation, StatusIdle)])]))
     (NamespacedName ''ns'' ''svc'') = Some StatusIdle \<and>
   hasIdleAt (Some (svcWith (Some [(idledAtKey, ''t''), (StatusAnnotation, StatusIdle)]))) \<and>
   (\<forall>n. \<not> rejects (kube (iscOver (kubeStoring
       [svcWith (Some [(idledAtKey, ''t''), (StatusAnnotation, StatusIdle)])]))) n) \<and>
   CHR ''/'' \<notin> set ''ns'' \<and> CHR ''/'' \<notin> set ''svc'' \<and>
   svcId (svcWith (Some [(StatusAnnotation, StatusIdle)])) = NamespacedName ''ns'' ''svc'' \<and>
   \<not> hasIdleAt (Some (svcWith (Some [(StatusAnnotation, StatusIdle)]))) \<and>
   svcId (svcWith (Some [(idledAtKey, ''u''), (StatusAnnotation, StatusGracePeriod)])) =
     NamespacedName ''ns'' ''svc'' \<and>
   hasIdleAt (Some (svcWith (Some [(idledAtKey, ''u''), (StatusAnnotation, StatusGracePeriod)]))) \<and>
   svcAnnotation (svcWith (Some [(idledAtKey, ''u''), (StatusAnnotation, StatusGracePeriod)]))
       StatusAnnotation =
     storedStatus (observeUpdate
        (iscOver (kubeStoring [svcWith (Some [(idledAtKey, ''t''), (StatusAnnotation, StatusIdle)])]))
        (svcWith (Some [(StatusAnnotation, StatusIdle)]))) (NamespacedName ''ns'' ''svc'') \<and>
   storedStatus (observeUpdate (observeUpdate
        (iscOver (kubeStoring [svcWith (Some [(idledAtKey, ''t''), (StatusAnnotation, StatusIdle)])]))
        (svcWith (Some [(StatusAnnotation, StatusIdle)])))
        (svcWith (Some [(idledAtKey, ''u''), (StatusAnnotation, StatusGracePeriod)])))
     (NamespacedName ''ns'' ''svc'') = Some StatusIdle \<and>
   syncKey (observeUpdate (observeUpdate
        (iscOver (kubeStoring [svcWith (Some [(idledAtKey, ''t''), (StatusAnnotation, StatusIdle)])]))
        (svcWith (Some [(StatusAnnotation, StatusIdle)])))
        (svcWith (Some [(idledAtKey, ''u''), (StatusAnnotation, StatusGracePeriod)]))) ''ns/svc'' =
     (None, observeUpdate (observeUpdate
        (iscOver (kubeStoring [svcWith (Some [(idledAtKey, ''t''), (StatusAnnotation, StatusIdle)])]))
        (svcWith (Some [(StatusAnnotation, StatusIdle)])))
        (svcWith (Some [(idledAtKey, ''u''), (StatusAnnotation, StatusGracePeriod)])))"
proof -
  let ?svc0 = "svcWith (Some [(idledAtKey, ''t''), (StatusAnnotation, StatusIdle)])"
  let ?svc1 = "svcWith (Some [(StatusAnnotation, StatusIdle)])"
  let ?svc2 = "svcWith (Some [(idledAtKey, ''u''), (StatusAnnotation, StatusGracePeriod)])"
  let ?isc = "iscOver (kubeStoring [?svc0])"
  have stored: "objects (kube ?isc) (svcId ?svc0) = Some ?svc0"
    by (simp add: input_defs)
  have idle0: "hasIdleAt (Some ?svc0)"
    by (simp add: marker_defs svcWith_def)
  have ok: "\<forall>n. \<not> rejects (kube ?isc) n"
    by (simp add: input_defs)
  have names: "CHR ''/'' \<notin> set (Namespace ?svc0)" "CHR ''/'' \<notin> set (Name ?svc0)"
    by (simp_all add: svcWith_def)
  have unidled: "svcId ?svc1 = svcId ?svc0" "\<not> hasIdleAt (Some ?svc1)"
    by (simp_all add: marker_defs input_defs status_defs)
  have idled: "svcId ?svc2 = svcId ?svc0" "hasIdleAt (Some ?svc2)"
    by (simp_all add: marker_defs input_defs)
  have first: "storedStatus (observeUpdate ?isc ?svc1) (svcId ?svc0) = Some StatusGracePeriod"
    using observeUpdate_unidle[OF stored idle0 _ unidled] ok
    by (simp add: storedStatus_def svcAnnotation_setAnnotation)
  have seen: "svcAnnotation ?svc2 StatusAnnotation = storedStatus (observeUpdate ?isc ?svc1) (svcId ?svc0)"
    by (simp add: first) (simp add: svcAnnotation_def svcWith_def marker_defs status_defs)
  have key: "serviceKey ?svc0 = ''ns/svc''"
    by (simp add: serviceKey_def MetaNamespaceKeyFunc_def svcWith_def)
  have id: "svcId ?svc0 = NamespacedName ''ns'' ''svc''"
    by (simp add: input_defs)
  have start: "storedStatus ?isc (NamespacedName ''ns'' ''svc'') = Some StatusIdle"
    by (simp add: storedStatus_def svcAnnotation_def input_defs marker_defs status_defs)
  show ?thesis
    using idle_round_trip[OF stored idle0 ok names unidled idled seen]
      stored start idle0 ok unidled idled seen
    by (simp add: key id)
qed

subsection \<open>The registry under service notifications\<close>

lemma alignIdleStatusAnnotation_registry:
  "serviceVIPToName (snd (snd (alignIdleStatusAnnotation uc svc))) = serviceVIPToName uc"
  by (simp add: alignIdleStatusAnnotation_def Let_def MetaNamespaceKeyFunc_def)

lemma add_ports_registry:
  "serviceVIPToName (foldl (\<lambda>uc2 svcPort. AddServiceVIPToName uc2 (j (Port svcPort))
       (PortProtocol svcPort) ns nm) uc ps) =
   (\<lambda>k. if k \<in> (\<lambda>p. ServiceVIPKey (j (Port p)) (PortProtocol p)) ` set ps
         then Some (NamespacedName ns nm) else serviceVIPToName uc k)"
  by (induction ps arbitrary: uc) (auto simp: AddServiceVIPToName_def fun_eq_iff)

lemma delete_ports_registry:
  "serviceVIPToName (foldl (\<lambda>uc2 svcPort. DeleteServiceVIPToName uc2 (j (Port svcPort))
       (PortProtocol svcPort)) uc ps) =
   (\<lambda>k. if k \<in> (\<lambda>p. ServiceVIPKey (j (Port p)) (PortProtocol p)) ` set ps
         then None else serviceVIPToName uc k)"
  by (induction ps arbitrary: uc) (auto simp: DeleteServiceVIPToName_def fun_eq_iff)

lemma svcKeys_unfold:
  "svcKeys u svc =
     (if ServiceTypeHasClusterIP u svc \<and> IsClusterIPSet u svc
      then concat (map (\<lambda>ip. map (\<lambda>p. ServiceVIPKey (JoinHostPortInt32 u ip (Port p)) (PortProtocol p))
             (Ports svc)) (GetClusterIPs u svc))
      else [])"
  by (simp add: svcKeys_def svcEntries_def map_concat comp_def)

lemma set_svcKeys:
  "set (svcKeys u svc) =
     (if ServiceTypeHasClusterIP u svc \<and> IsClusterIPSet u svc
      then (\<Union>ip \<in> set (GetClusterIPs u svc).
              (\<lambda>p. ServiceVIPKey (JoinHostPortInt32 u ip (Port p)) (PortProtocol p)) ` set (Ports svc))
      else {})"
  by (auto simp: svcKeys_unfold)

lemma svcEntries_svcKeys: "svcEntries u svc = map (\<lambda>k. (k, svcId svc)) (svcKeys u svc)"
  by (simp add: svcKeys_def svcEntries_def map_concat comp_def)

lemma addServiceVIPs_ips:
  "serviceVIPToName (foldl (\<lambda>uc1 ip.
        foldl (\<lambda>uc2 svcPort.
           AddServiceVIPToName uc2 (JoinHostPortInt32 u ip (Port svcPort))
             (PortProtocol svcPort) ns nm)
          uc1 ps) uc ips) =
   (\<lambda>k. if k \<in> (\<Union>ip \<in> set ips. (\<lambda>p. ServiceVIPKey (JoinHostPortInt32 u ip (Port p)) (PortProtocol p)) ` set ps)
         then Some (NamespacedName ns nm) else serviceVIPToName uc k)"
  by (induction ips arbitrary: uc) (auto simp: add_ports_registry fun_eq_iff)

lemma deleteServiceVIPs_ips:
  "serviceVIPToName (foldl (\<lambda>uc1 ip.
        foldl (\<lambda>uc2 svcPort.
           DeleteServiceVIPToName uc2 (JoinHostPortInt32 u ip (Port svcPort))
             (PortProtocol svcPort))
          uc1 ps) uc ips) =
   (\<lambda>k. if k \<in> (\<Union>ip \<in> set ips. (\<lambda>p. ServiceVIPKey (JoinHostPortInt32 u ip (Port p)) (PortProtocol p)) ` set ps)
         then None else serviceVIPToName uc k)"
  by (induction ips arbitrary: uc) (auto simp: delete_ports_registry fun_eq_iff)

lemma uc_onServiceAdd_registry:
  "serviceVIPToName (fst (uc_onServiceAdd u uc svc)) =
     (\<lambda>k. if k \<in> set (svcKeys u svc) then Some (svcId svc) else serviceVIPToName uc k)"
proof -
  have "serviceVIPToName (fst (uc_onServiceAdd u uc svc)) =
        serviceVIPToName (if ServiceTypeHasClusterIP u svc \<and> IsClusterIPSet u svc
                 then addServiceVIPs u uc svc else uc)"
    using alignIdleStatusAnnotation_registry
    by (simp add: uc_onServiceAdd_def Let_def split: prod.splits) (metis snd_conv)
  then show ?thesis
    by (auto simp: addServiceVIPs_def addServiceVIPs_ips set_svcKeys svcId_def fun_eq_iff)
qed

lemma uc_onServiceDelete_registry:
  "serviceVIPToName (uc_onServiceDelete u uc (SvcObj svc)) =
     (\<lambda>k. if k \<in> set (svcKeys u svc) then None else serviceVIPToName uc k)"
  by (auto simp: deleteServiceVIPs_def deleteServiceVIPs_ips set_svcKeys fun_eq_iff)

lemma uc_onServiceUpdate_registry:
  "serviceVIPToName (fst (uc_onServiceUpdate u uc old new)) =
     (\<lambda>k. if k \<in> set (svcKeys u new) then Some (svcId new)
           else if k \<in> set (svcKeys u old) then None
           else serviceVIPToName uc k)"
  by (simp add: uc_onServiceUpdate_def uc_onServiceAdd_registry uc_onServiceDelete_registry
      fun_eq_iff del: uc_onServiceDelete.simps)

lemma known_iff:
  "known u ws svc \<longleftrightarrow> (\<exists>x\<in>set ws. svcId x = svcId svc \<and> svcEntries u x = svcEntries u svc)"
  by (simp add: known_def list_ex_iff)

lemma apart_iff:
  "apart u ws svc \<longleftrightarrow>
     (\<forall>x\<in>set ws. svcId x \<noteq> svcId svc \<longrightarrow> set (svcKeys u x) \<inter> set (svcKeys u svc) = {})"
  by (auto simp: apart_def list_all_iff)

lemma graph_override:
  "Map.graph (\<lambda>k. if k \<in> K then Some v else m k) =
     (\<lambda>k. (k, v)) ` K \<union> {(k, w) \<in> Map.graph m. k \<notin> K}"
  by (auto simp: Map.graph_def split: if_splits)

lemma graph_remove:
  "Map.graph (\<lambda>k. if k \<in> K then None else m k) = {(k, w) \<in> Map.graph m. k \<notin> K}"
  by (auto simp: Map.graph_def split: if_splits)

lemma entries_without:
  assumes "\<forall>x\<in>set ws. svcId x = i \<longrightarrow> set (svcKeys u x) \<subseteq> K"
      and "\<forall>x\<in>set ws. svcId x \<noteq> i \<longrightarrow> set (svcKeys u x) \<inter> K = {}"
  shows "{(k, w) \<in> set (concat (map (svcEntries u) ws)). k \<notin> K} =
         set (concat (map (svcEntries u) (filter (\<lambda>x. svcId x \<noteq> i) ws)))"
  using assms by (auto simp: svcEntries_svcKeys)

lemma regInv_insert:
  assumes inv: "regInv u ws m"
      and new: "\<forall>x\<in>set ws. svcId x \<noteq> svcId svc"
      and ap: "\<forall>x\<in>set ws. set (svcKeys u x) \<inter> set (svcKeys u svc) = {}"
  shows "regInv u (svc # ws) (\<lambda>k. if k \<in> set (svcKeys u svc) then Some (svcId svc) else m k)"
proof -
  have same: "filter (\<lambda>x. svcId x \<noteq> svcId svc) ws = ws"
    using new by (simp add: filter_id_conv)
  have g: "Map.graph m = set (concat (map (svcEntries u) ws))"
    using inv by (simp add: regInv_def)
  have "{(k, w) \<in> set (concat (map (svcEntries u) ws)). k \<notin> set (svcKeys u svc)} =
        set (concat (map (svcEntries u) (filter (\<lambda>x. svcId x \<noteq> svcId svc) ws)))"
    using new ap by (intro entries_without) auto
  then have graph: "Map.graph (\<lambda>k. if k \<in> set (svcKeys u svc) then Some (svcId svc) else m k) =
      set (concat (map (svcEntries u) (svc # ws)))"
    by (simp add: graph_override g same svcEntries_svcKeys[of u svc])
  have "distinct (map svcId (svc # ws))"
    using inv new by (auto simp: regInv_def)
  moreover have "\<forall>x\<in>set (svc # ws). \<forall>y\<in>set (svc # ws). svcId x \<noteq> svcId y \<longrightarrow>
      set (svcKeys u x) \<inter> set (svcKeys u y) = {}"
    using inv ap unfolding regInv_def by (auto simp: Int_commute)
  ultimately show ?thesis
    using graph by (simp add: regInv_def)
qed

lemma regInv_forget:
  assumes inv: "regInv u ws m" and kn: "known u ws svc"
  shows "regInv u (filter (\<lambda>x. svcId x \<noteq> svcId svc) ws)
           (\<lambda>k. if k \<in> set (svcKeys u svc) then None else m k)"
proof -
  obtain x where x: "x \<in> set ws" "svcId x = svcId svc" "svcEntries u x = svcEntries u svc"
    using kn by (auto simp: known_iff)
  have keys: "svcKeys u x = svcKeys u svc"
    using x(3) by (simp add: svcKeys_def)
  have disj: "\<forall>a\<in>set ws. \<forall>b\<in>set ws. svcId a \<noteq> svcId b \<longrightarrow>
      set (svcKeys u a) \<inter> set (svcKeys u b) = {}"
    and dist: "distinct (map svcId ws)"
    and g: "Map.graph m = set (concat (map (svcEntries u) ws))"
    using inv by (simp_all add: regInv_def)
  have uniq: "\<forall>y\<in>set ws. svcId y = svcId svc \<longrightarrow> y = x"
    using dist x(1,2) by (auto simp: distinct_map inj_on_def)
  have one: "\<forall>y\<in>set ws. svcId y = svcId svc \<longrightarrow> set (svcKeys u y) \<subseteq> set (svcKeys u svc)"
    using uniq keys by auto
  have two: "\<forall>y\<in>set ws. svcId y \<noteq> svcId svc \<longrightarrow> set (svcKeys u y) \<inter> set (svcKeys u svc) = {}"
    using disj x(1,2) keys by metis
  have "{(k, w) \<in> set (concat (map (svcEntries u) ws)). k \<notin> set (svcKeys u svc)} =
        set (concat (map (svcEntries u) (filter (\<lambda>x. svcId x \<noteq> svcId svc) ws)))"
    using one two by (rule entries_without)
  then have "Map.graph (\<lambda>k. if k \<in> set (svcKeys u svc) then None else m k) =
      set (concat (map (svcEntries u) (filter (\<lambda>x. svcId x \<noteq> svcId svc) ws)))"
    by (simp add: graph_remove g)
  moreover have "distinct (map svcId (filter (\<lambda>x. svcId x \<noteq> svcId svc) ws))"
    using dist by (simp add: distinct_map_filter)
  ultimately show ?thesis
    using disj by (simp add: regInv_def)
qed

lemma regInv_step:
  assumes inv: "regInv u ws (serviceVIPToName uc)" and adm: "admissible u ws n"
  shows "regInv u (observe ws n) (serviceVIPToName (notify u uc n))"
proof (cases n)
  case (Added svc)
  have new: "\<forall>x\<in>set ws. svcId x \<noteq> svcId svc"
    using adm Added by (auto simp: list_ex_iff)
  then have ap: "\<forall>x\<in>set ws. set (svcKeys u x) \<inter> set (svcKeys u svc) = {}"
    using adm Added by (simp add: apart_iff)
  have "filter (\<lambda>x. svcId x \<noteq> svcId svc) ws = ws"
    using new by (simp add: filter_id_conv)
  then show ?thesis
    using regInv_insert[OF inv new ap] Added by (simp add: uc_onServiceAdd_registry)
next
  case (Updated old new)
  let ?rest = "filter (\<lambda>x. svcId x \<noteq> svcId old) ws"
  have id: "svcId new = svcId old" and kn: "known u ws old" and ap: "apart u ws new"
    using adm Updated by simp_all
  have rest: "regInv u ?rest (\<lambda>k. if k \<in> set (svcKeys u old) then None else serviceVIPToName uc k)"
    using inv kn by (rule regInv_forget)
  have fresh: "\<forall>x\<in>set ?rest. svcId x \<noteq> svcId new"
    by (simp add: id)
  have disj: "\<forall>x\<in>set ?rest. set (svcKeys u x) \<inter> set (svcKeys u new) = {}"
    using ap by (simp add: apart_iff id)
  show ?thesis
    using regInv_insert[OF rest fresh disj] Updated
    by (simp add: uc_onServiceUpdate_registry id cong: if_cong)
next
  case (Deleted svc)
  then show ?thesis
    using regInv_forget[OF inv, of svc] adm
    by (simp add: uc_onServiceDelete_registry del: uc_onServiceDelete.simps)
qed

lemma regInv_run:
  "regInv u ws (serviceVIPToName uc) \<Longrightarrow> wellFormed u ws ns \<Longrightarrow>
   regInv u (foldl observe ws ns) (serviceVIPToName (foldl (notify u) uc ns))"
  by (induction ns arbitrary: ws uc) (simp_all add: regInv_step)

text \<open>
  C5, as the code has it: start from an empty registry and handle a sequence of
  notifications that follows the informer's discipline and in which the keys of an added
  or updated spec are held by no other existing workload. Then the registry holds
  exactly the entries derivable from the last seen spec of each existing workload with a
  set cluster address. Whatever the registry was, after an update it has the entries of
  the new spec, none for a key that only the old spec had, and is unchanged elsewhere.
\<close>

theorem registry_follows_notifications:
  assumes "serviceVIPToName uc = Map.empty" and "wellFormed u [] ns"
  shows "Map.graph (serviceVIPToName (foldl (notify u) uc ns)) =
           set (concat (map (svcEntries u) (foldl observe [] ns))) \<and>
         serviceVIPToName (fst (uc_onServiceUpdate u uc' old new)) =
           (\<lambda>k. if k \<in> set (svcKeys u new) then Some (svcId new)
                 else if k \<in> set (svcKeys u old) then None
                 else serviceVIPToName uc' k)"
proof -
  have "regInv u [] (serviceVIPToName uc)"
    using assms(1) by (simp add: regInv_def)
  then have "regInv u (foldl observe [] ns) (serviceVIPToName (foldl (notify u) uc ns))"
    using assms(2) by (rule regInv_run)
  then show ?thesis
    by (simp add: regInv_def uc_onServiceUpdate_registry)
qed

lemma showInt_80: "showInt 80 = ''80''"
  by (simp add: showInt_def showNat.simps[of 80] showNat.simps[of 8])

lemma svcEntries_svcAt:
  assumes "ip \<noteq> ''None''" and "ip \<noteq> []"
  shows "svcEntries plainUtil (svcAt name ip) =
     [(ServiceVIPKey ((if CHR '':'' \<in> set ip then ''['' @ ip @ '']'' else ip) @ '':80'') ProtocolTCP,
       NamespacedName ''ns'' name)]"
  using assms by (simp add: svcEntries_def plainUtil_def svcAt_def svcId_def showInt_80)

text \<open>
  A workload is added, moves to another address, a second workload is added and the first
  is deleted: the registry is left with the entry of the second.
\<close>

lemma svcId_svcAt: "svcId (svcAt name ip) = NamespacedName ''ns'' name"
  by (simp add: svcId_def svcAt_def)

theorem registry_follows_notifications_witness:
  "serviceVIPToName (ucOver [] [] False) = Map.empty \<and>
   wellFormed plainUtil []
     [Added (svcAt ''a'' ''10.0.0.5''), Updated (svcAt ''a'' ''10.0.0.5'') (svcAt ''a'' ''10.0.0.6''),
      Added (svcAt ''b'' ''10.0.0.5''), Deleted (svcAt ''a'' ''10.0.0.6'')] \<and>
   Map.graph (serviceVIPToName (foldl (notify plainUtil) (ucOver [] [] False)
     [Added (svcAt ''a'' ''10.0.0.5''), Updated (svcAt ''a'' ''10.0.0.5'') (svcAt ''a'' ''10.0.0.6''),
      Added (svcAt ''b'' ''10.0.0.5''), Deleted (svcAt ''a'' ''10.0.0.6'')])) =
     {(ServiceVIPKey ''10.0.0.5:80'' ProtocolTCP, NamespacedName ''ns'' ''b'')}"
proof -
  let ?ns = "[Added (svcAt ''a'' ''10.0.0.5''), Updated (svcAt ''a'' ''10.0.0.5'') (svcAt ''a'' ''10.0.0.6''),
      Added (svcAt ''b'' ''10.0.0.5''), Deleted (svcAt ''a'' ''10.0.0.6'')]"
  have empty: "serviceVIPToName (ucOver [] [] False) = Map.empty"
    by (simp add: ucOver_def)
  have wf: "wellFormed plainUtil [] ?ns"
    by (simp add: known_def apart_def svcKeys_def svcEntries_svcAt svcId_svcAt)
  have seen: "foldl observe [] ?ns = [svcAt ''b'' ''10.0.0.5'']"
    by (simp add: svcId_svcAt)
  have entries: "set (concat (map (svcEntries plainUtil) (foldl observe [] ?ns))) =
      {(ServiceVIPKey ''10.0.0.5:80'' ProtocolTCP, NamespacedName ''ns'' ''b'')}"
    unfolding seen by (simp add: svcEntries_svcAt)
  have "Map.graph (serviceVIPToName (foldl (notify plainUtil) (ucOver [] [] False) ?ns)) =
      set (concat (map (svcEntries plainUtil) (foldl observe [] ?ns)))"
    using registry_follows_notifications[OF empty wf] by (rule conjunct1)
  then have "Map.graph (serviceVIPToName (foldl (notify plainUtil) (ucOver [] [] False) ?ns)) =
      {(ServiceVIPKey ''10.0.0.5:80'' ProtocolTCP, NamespacedName ''ns'' ''b'')}"
    unfolding entries .
  with empty wf show ?thesis
    by (intro conjI)
qed

text \<open>
  The claim C5 as written fails when a notification brings a key that another existing
  workload holds: \<^verbatim>\<open>ns/b\<close> is added at the address of \<^verbatim>\<open>ns/a\<close> before the delete of
  \<^verbatim>\<open>ns/a\<close> is handled (the order in which an informer replays a relist). The delete
  removes the key, and the registry is empty although \<^verbatim>\<open>ns/b\<close> exists.
\<close>

theorem registry_shared_key_counterexample:
  "serviceVIPToName (foldl (notify plainUtil) (ucOver [] [] False)
     [Added (svcAt ''a'' ''10.0.0.5''), Added (svcAt ''b'' ''10.0.0.5''),
      Deleted (svcAt ''a'' ''10.0.0.5'')]) = Map.empty \<and>
   concat (map (svcEntries plainUtil) (foldl observe []
     [Added (svcAt ''a'' ''10.0.0.5''), Added (svcAt ''b'' ''10.0.0.5''),
      Deleted (svcAt ''a'' ''10.0.0.5'')])) =
     [(ServiceVIPKey ''10.0.0.5:80'' ProtocolTCP, NamespacedName ''ns'' ''b'')] \<and>
   Map.graph (serviceVIPToName (foldl (notify plainUtil) (ucOver [] [] False)
     [Added (svcAt ''a'' ''10.0.0.5''), Added (svcAt ''b'' ''10.0.0.5''),
      Deleted (svcAt ''a'' ''10.0.0.5'')])) \<noteq>
   set (concat (map (svcEntries plainUtil) (foldl observe []
     [Added (svcAt ''a'' ''10.0.0.5''), Added (svcAt ''b'' ''10.0.0.5''),
      Deleted (svcAt ''a'' ''10.0.0.5'')])))"
proof -
  have keys: "set (svcKeys plainUtil (svcAt name ''10.0.0.5'')) =
      {ServiceVIPKey ''10.0.0.5:80'' ProtocolTCP}" for name
    by (simp add: svcKeys_def svcEntries_svcAt)
  have reg: "serviceVIPToName (foldl (notify plainUtil) (ucOver [] [] False)
     [Added (svcAt ''a'' ''10.0.0.5''), Added (svcAt ''b'' ''10.0.0.5''),
      Deleted (svcAt ''a'' ''10.0.0.5'')]) = Map.empty"
    by (simp add: uc_onServiceAdd_registry uc_onServiceDelete_registry keys ucOver_def fun_eq_iff
        del: uc_onServiceDelete.simps)
  have seen: "foldl observe []
     [Added (svcAt ''a'' ''10.0.0.5''), Added (svcAt ''b'' ''10.0.0.5''),
      Deleted (svcAt ''a'' ''10.0.0.5'')] = [svcAt ''b'' ''10.0.0.5'']"
    by (simp add: svcId_svcAt)
  show ?thesis
    unfolding reg seen by (simp add: svcEntries_svcAt)
qed

end
